theory Spec2Isabelle
  imports Main "HOL-Library.Word" "HOL-Library.Signed_Division"
begin

section \<open>Machine integers\<close>

text \<open>
  Go's \<open>int64\<close> is a 64-bit two's complement word. Its \<open>/\<close> and \<open>%\<close> truncate
  towards zero; the result is stored back into 64 bits.
\<close>

type_synonym int64 = "64 word"

definition quo64 :: "int64 \<Rightarrow> int64 \<Rightarrow> int64" where
  "quo64 a b = word_of_int (sint a sdiv sint b)"

definition rem64 :: "int64 \<Rightarrow> int64 \<Rightarrow> int64" where
  "rem64 a b = word_of_int (sint a smod sint b)"

text \<open>\<open>time.Millisecond\<close> is the constant 1000000 (a \<open>time.Duration\<close> counts nanoseconds).\<close>

definition Millisecond :: int64 where
  "Millisecond = 1000000"

section \<open>Errors\<close>

text \<open>
  Error values: \<open>errors.New\<close> of a text, the \<open>*strconv.NumError\<close> of a failed
  conversion (function name, input, cause), and \<open>fmt.Errorf\<close> of a format with one
  \<open>%q\<close> argument that wraps a cause with \<open>%w\<close>.
\<close>

datatype numerr = ErrSyntax | ErrRange

datatype error =
    errors_New string
  | NumError string string numerr
  | fmt_Errorf string string error

section \<open>strconv\<close>

text \<open>
  \<open>strconv.FormatInt (i, 10)\<close> and \<open>strconv.ParseInt (s, 10, 64)\<close> of Go's standard
  library, which \<open>Publish\<close> and \<open>parseGatewayMessage\<close> call. \<open>FormatInt\<close> writes the
  decimal digits of the magnitude, most significant first, after a \<open>-\<close> for a negative
  number. \<open>ParseInt\<close> takes one optional sign, then \<open>ParseUint\<close> reads decimal digits
  into a \<open>uint64\<close>, failing with \<open>ErrSyntax\<close> on an empty text or any other byte and
  with \<open>ErrRange\<close> when the number does not fit.
\<close>

definition digit_char :: "nat \<Rightarrow> char" where
  "digit_char d = ''0123456789'' ! d"

fun format_uint :: "nat \<Rightarrow> string" where
  "format_uint n = (if n < 10 then [digit_char n] else format_uint (n div 10) @ [digit_char (n mod 10)])"

declare format_uint.simps [simp del]

definition FormatInt :: "int64 \<Rightarrow> string" where
  "FormatInt i = (if sint i < 0 then CHR ''-'' # format_uint (nat (- sint i)) else format_uint (nat (sint i)))"

definition is_digit :: "char \<Rightarrow> bool" where
  "is_digit c = (48 \<le> (of_char c :: nat) \<and> (of_char c :: nat) \<le> 57)"

definition digit_val :: "char \<Rightarrow> nat" where
  "digit_val c = of_char c - 48"

text \<open>
  The loop of \<open>ParseUint\<close> for base 10 and 64 bits: \<open>n\<close> is the \<open>uint64\<close> read so far.
  The cutoff is \<open>maxUint64 / 10 + 1\<close>, the first \<open>n\<close> for which \<open>n * 10\<close> overflows.
\<close>

definition uint_cutoff :: nat where
  "uint_cutoff = (2 ^ 64 - 1) div 10 + 1"

fun parse_digits :: "nat \<Rightarrow> string \<Rightarrow> numerr + nat" where
  "parse_digits n [] = Inr n"
| "parse_digits n (c # cs) =
     (if \<not> is_digit c then Inl ErrSyntax
      else if n \<ge> uint_cutoff then Inl ErrRange
      else let n1 = n * 10 + digit_val c
           in if n1 \<ge> 2 ^ 64 then Inl ErrRange else parse_digits n1 cs)"

definition ParseUint :: "string \<Rightarrow> numerr + nat" where
  "ParseUint s = (if s = [] then Inl ErrSyntax else parse_digits 0 s)"

definition ParseInt :: "string \<Rightarrow> error + int64" where
  "ParseInt s0 =
     (if s0 = [] then Inl (NumError ''ParseInt'' s0 ErrSyntax)
      else let neg = (hd s0 = CHR ''-'');
               s = (if hd s0 = CHR ''+'' \<or> hd s0 = CHR ''-'' then tl s0 else s0)
           in case ParseUint s of
                Inl ErrSyntax \<Rightarrow> Inl (NumError ''ParseInt'' s0 ErrSyntax)
              | Inl ErrRange \<Rightarrow> Inl (NumError ''ParseInt'' s0 ErrRange)
              | Inr un \<Rightarrow>
                  if \<not> neg \<and> un \<ge> 2 ^ 63 then Inl (NumError ''ParseInt'' s0 ErrRange)
                  else if neg \<and> un > 2 ^ 63 then Inl (NumError ''ParseInt'' s0 ErrRange)
                  else Inr (if neg then - word_of_nat un else word_of_nat un))"

section \<open>time\<close>

text \<open>
  A \<open>time.Time\<close> as \<open>time.Unix\<close> builds it: seconds since the epoch and nanoseconds
  within the second. \<open>time.Unix (sec, nsec)\<close> accepts any \<open>nsec\<close> and carries what is
  outside \<open>[0, 999999999]\<close> into the seconds. Both times of an envelope are built by
  \<open>time.Unix\<close>, so both are in the local time zone, which the record leaves out.
\<close>

record Time =
  unix_sec :: int64
  nanosecond :: int64

definition time_Unix :: "int64 \<Rightarrow> int64 \<Rightarrow> Time" where
  "time_Unix sec nsec =
     (if sint nsec < 0 \<or> sint nsec \<ge> 1000000000 then
        let n = quo64 nsec 1000000000;
            sec1 = sec + n;
            nsec1 = nsec - n * 1000000000
        in if sint nsec1 < 0
           then \<lparr>unix_sec = sec1 - 1, nanosecond = nsec1 + 1000000000\<rparr>
           else \<lparr>unix_sec = sec1, nanosecond = nsec1\<rparr>
      else \<lparr>unix_sec = sec, nanosecond = nsec\<rparr>)"

text \<open>
  The readings of a \<open>time.Time\<close>: \<open>Unix\<close> in seconds, \<open>UnixMilli\<close> in
  milliseconds (\<open>sec * 1e3 + nsec / 1e6\<close>) and \<open>UnixNano\<close> in nanoseconds.
\<close>

definition Unix :: "Time \<Rightarrow> int64" where
  "Unix t = unix_sec t"

definition UnixMilli :: "Time \<Rightarrow> int64" where
  "UnixMilli t = unix_sec t * 1000 + quo64 (nanosecond t) 1000000"

definition UnixNano :: "Time \<Rightarrow> int64" where
  "UnixNano t = unix_sec t * 1000000000 + nanosecond t"

text \<open>The zero value \<open>time.Time{}\<close>, which the error returns carry, is not a result here:
  an error return is \<open>Inl\<close> of the error alone.\<close>

section \<open>The work queue\<close>

subsection \<open>Events and streams\<close>

text \<open>\<open>type Event string\<close>: an event is the name of the Redis stream it is published to.\<close>

type_synonym Event = string

definition slackPublicMessage :: string where
  "slackPublicMessage = ''slack_message_public''"

definition slackPrivateMessage :: string where
  "slackPrivateMessage = ''slack_message_private''"

definition slackTeamJoin :: string where
  "slackTeamJoin = ''slack_team_join''"

definition slackChannelJoin :: string where
  "slackChannelJoin = ''slack_channel_join''"

definition SlackMessageChannel :: Event where
  "SlackMessageChannel = slackPublicMessage"

definition SlackMessageAppHome :: Event where
  "SlackMessageAppHome = slackPrivateMessage"

definition SlackMessageGroup :: Event where
  "SlackMessageGroup = slackPrivateMessage"

definition SlackMessageIM :: Event where
  "SlackMessageIM = slackPrivateMessage"

definition SlackMessageMPIM :: Event where
  "SlackMessageMPIM = slackPrivateMessage"

definition SlackTeamJoin :: Event where
  "SlackTeamJoin = slackTeamJoin"

definition SlackChannelJoin :: Event where
  "SlackChannelJoin = slackChannelJoin"

subsection \<open>Messages\<close>

text \<open>
  A \<open>redisqueue.Message\<close>: the id Redis gave it, its stream, and the field map
  \<open>map[string]interface{}\<close>. A value of the empty interface is a string or something else.
\<close>

datatype iface = VString string | VInt int64 | VBool bool | VNil

record Message =
  ID :: string
  Stream :: string
  Values :: "string \<rightharpoonup> iface"

subsection \<open>Publish\<close>

text \<open>
  \<open>Publish\<close> builds the message that it hands to the producer's \<open>Enqueue\<close>. The first
  argument is what \<open>time.Now().UnixNano()\<close> returns at the call; the id is assigned by
  Redis on enqueue and is empty here.
\<close>

definition Publish :: "int64 \<Rightarrow> Event \<Rightarrow> int64 \<Rightarrow> string \<Rightarrow> string \<Rightarrow> string \<Rightarrow> Message" where
  "Publish nowUnixNano e eventTimestamp eventID requestID jsonData =
     \<lparr>ID = [],
      Stream = e,
      Values = [''request_id'' \<mapsto> VString requestID,
                ''gateway_ts'' \<mapsto> VString (FormatInt (quo64 nowUnixNano Millisecond)),
                ''event_ts'' \<mapsto> VString (FormatInt eventTimestamp),
                ''event_id'' \<mapsto> VString eventID,
                ''json'' \<mapsto> VString jsonData]\<rparr>"

subsection \<open>Decoding the envelope\<close>

definition unix :: "int64 \<Rightarrow> int64 \<times> int64" where
  "unix i = (quo64 i 1000, rem64 i 1000 * Millisecond)"

definition parseGatewayMessage :: "Message \<Rightarrow> error + (string \<times> Time \<times> Time \<times> string)" where
  "parseGatewayMessage m =
     (case Values m ''event_ts'' of
        None \<Rightarrow> Inl (errors_New ''redis stream malformed: event_ts not present'')
      | Some eti \<Rightarrow>
     (case Values m ''gateway_ts'' of
        None \<Rightarrow> Inl (errors_New ''redis stream malformed: gateway_ts not present'')
      | Some gti \<Rightarrow>
     (case Values m ''event_id'' of
        None \<Rightarrow> Inl (errors_New ''redis stream malformed: event_id not present'')
      | Some eidi \<Rightarrow>
     (case Values m ''json'' of
        None \<Rightarrow> Inl (errors_New ''redis stream malformed: json data not present'')
      | Some di \<Rightarrow>
     (case di of
        VString d \<Rightarrow>
     (case eidi of
        VString eid \<Rightarrow>
     (case eti of
        VString ets \<Rightarrow>
     (case gti of
        VString gts \<Rightarrow>
     (case ParseInt ets of
        Inl err \<Rightarrow> Inl (fmt_Errorf ''failed to parse event_ts %q: %w'' ets err)
      | Inr et \<Rightarrow>
     (case ParseInt gts of
        Inl err \<Rightarrow> Inl (fmt_Errorf ''failed to parse gateway_ts %q: %w'' gts err)
      | Inr gt \<Rightarrow>
          let ett = time_Unix et 0;
              (s, ns) = unix gt;
              gtt = time_Unix s ns
          in Inr (eid, ett, gtt, d)))
      | _ \<Rightarrow> Inl (errors_New ''gateway_ts is not a string''))
      | _ \<Rightarrow> Inl (errors_New ''event_ts is not a string''))
      | _ \<Rightarrow> Inl (errors_New ''event_id data is not a string''))
      | _ \<Rightarrow> Inl (errors_New ''json data is not a string''))))))"

subsection \<open>Logging\<close>

text \<open>
  A \<open>zerolog.Logger\<close> is the list of fields its context carries, in the order they
  were added with \<open>With()\<close>. A log call adds the fields of the event and emits one
  line. \<open>Err\<close> writes the field \<open>error\<close>; \<open>TimeDiff (key, t, start)\<close> and
  \<open>Dur\<close> write a duration.
\<close>

type_synonym instant = int
type_synonym Duration = int

datatype Level = InfoLevel | WarnLevel | ErrorLevel

datatype logval = LStr string | LTime Time | LErr error | LBool bool | LDur Duration

type_synonym logger = "(string \<times> logval) list"

record log_line =
  level :: Level
  log_fields :: "(string \<times> logval) list"
  msg :: string

subsection \<open>The context of a dispatch\<close>

text \<open>
  \<open>context.WithTimeout (context.Background (), timeout)\<close> is a context whose deadline
  is \<open>time.Now().Add(timeout)\<close>.

  Modelled from the spec: the types \<open>ctxer\<close> and \<open>EventMetadata\<close> are declared in a
  file of the package that is not at hand. \<open>ctxer\<close> has the fields of the composite
  literal in the handler factories (\<open>Context\<close>, \<open>s\<close>, \<open>l\<close>, \<open>u\<close>, \<open>c\<close>, \<open>e\<close>,
  here with the prefix \<open>ctxer_\<close>); \<open>EventMetadata\<close> has the four positional fields
  of its literal, named as the spec's data model names them. The Slack client, the bot
  user and the channel service are references that the factories only pass on.
\<close>

type_synonym ptr = nat

record Context =
  deadline :: instant

record EventMetadata =
  event_id :: string
  event_time :: Time
  enqueue_time :: Time
  transport_message_id :: string

record ctxer =
  ctxer_Context :: Context
  ctxer_s :: ptr
  ctxer_l :: logger
  ctxer_u :: ptr
  ctxer_c :: ptr
  ctxer_e :: EventMetadata

subsection \<open>Effects\<close>

text \<open>
  What a dispatch does besides returning: it reads the clock, writes log lines, creates
  and cancels a context and calls the handler. The world counts the clock readings and
  records the other effects in order; \<open>clk n\<close> is what the \<open>n\<close>-th call of
  \<open>time.Now()\<close> returns, in nanoseconds. The payload handed to a handler is a pointer:
  \<open>None\<close> is \<open>nil\<close>.
\<close>

datatype 'a event =
    Logged log_line
  | ContextCreated Context
  | HandlerInvoked ctxer "'a option"
  | HandlerReturned bool bool "error option"
  | ContextCancelled Context

record 'a world =
  reads :: nat
  events :: "'a event list"

type_synonym clock = "nat \<Rightarrow> instant"

definition time_Now :: "clock \<Rightarrow> 'a world \<Rightarrow> instant \<times> 'a world" where
  "time_Now clk w = (clk (reads w), w\<lparr>reads := Suc (reads w)\<rparr>)"

definition time_Since :: "clock \<Rightarrow> instant \<Rightarrow> 'a world \<Rightarrow> Duration \<times> 'a world" where
  "time_Since clk t w = (let (now, w') = time_Now clk w in (now - t, w'))"

definition emit :: "'a event \<Rightarrow> 'a world \<Rightarrow> 'a world" where
  "emit ev w = w\<lparr>events := events w @ [ev]\<rparr>"

definition context_WithTimeout :: "clock \<Rightarrow> Duration \<Rightarrow> 'a world \<Rightarrow> Context \<times> 'a world" where
  "context_WithTimeout clk timeout w =
     (let (now, w') = time_Now clk w;
          ctx = \<lparr>deadline = now + timeout\<rparr>
      in (ctx, emit (ContextCreated ctx) w'))"

definition cancel :: "Context \<Rightarrow> 'a world \<Rightarrow> 'a world" where
  "cancel ctx w = emit (ContextCancelled ctx) w"

subsection \<open>Handlers\<close>

text \<open>
  \<open>MessageHandler\<close>, \<open>TeamJoinHandler\<close> and \<open>ChannelJoinHandler\<close> have one shape:
  from the context and a pointer to the event to \<open>(shouldRetry, discarded, err)\<close>. They
  differ in the type of the event, a type of the Slack library, which is the type
  parameter here. \<open>json.Unmarshal\<close> into that pointer is a parameter of the factories:
  it returns the error, or the pointer it stored.
\<close>

type_synonym 'a Handler = "ctxer \<Rightarrow> 'a option \<Rightarrow> bool \<times> bool \<times> error option"

type_synonym 'a Unmarshal = "string \<Rightarrow> error + 'a option"

text \<open>
  What \<open>encoding/json\<close> documents for a pointer target: the JSON literal \<open>null\<close>
  sets the pointer to \<open>nil\<close> without an error; any other document is decoded into a
  newly allocated value. The decoder of the value is the parameter \<open>decode\<close>. JSON
  allows blanks, tabs, line feeds and carriage returns around the literal.
\<close>

definition json_space :: "char \<Rightarrow> bool" where
  "json_space ch = (ch = CHR '' '' \<or> ch = CHR 0x09 \<or> ch = CHR 0x0A \<or> ch = CHR 0x0D)"

definition json_trim :: "string \<Rightarrow> string" where
  "json_trim d = rev (dropWhile json_space (rev (dropWhile json_space d)))"

definition json_Unmarshal_ptr :: "(string \<Rightarrow> error + 'a) \<Rightarrow> 'a Unmarshal" where
  "json_Unmarshal_ptr decode d =
     (if json_trim d = ''null'' then Inr None
      else case decode d of Inl err \<Rightarrow> Inl err | Inr v \<Rightarrow> Inr (Some v))"

subsection \<open>The handler factories\<close>

text \<open>
  Each factory returns the function that the consumer calls for every message of the
  stream. Its result is the error it returns to the consumer (\<open>None\<close> is \<open>nil\<close>: the
  consumer acknowledges the message) and the world after the call.
\<close>

definition messageHandlerFactory ::
  "logger \<Rightarrow> ptr \<Rightarrow> ptr \<Rightarrow> ptr \<Rightarrow> Duration \<Rightarrow> 'a Handler \<Rightarrow> 'a Unmarshal \<Rightarrow>
   clock \<Rightarrow> Message \<Rightarrow> 'a world \<Rightarrow> error option \<times> 'a world" where
  "messageHandlerFactory baseLogger sc botUser csvc timeout fn json_Unmarshal clk m w0 =
     (let flogger = baseLogger @ [(''handler'', LStr ''message'')];
          (start, w1) = time_Now clk w0;
          logger = flogger @ [(''redis_message'', LStr (ID m)), (''redis_stream'', LStr (Stream m))]
      in case parseGatewayMessage m of
           Inl err \<Rightarrow>
             let (now, w2) = time_Now clk w1
             in (None, emit (Logged \<lparr>level = ErrorLevel,
                                       log_fields = logger @ [(''error'', LErr err), (''duration'', LDur (now - start))],
                                       msg = ''failed to parse message from gateway''\<rparr>) w2)
         | Inr (eid, et, gt, d) \<Rightarrow>
             let logger = logger @ [(''event_time'', LTime et), (''event_id'', LStr eid), (''enqueued_time'', LTime gt)]
             in case json_Unmarshal d of
                  Inl err \<Rightarrow>
                    let (now, w2) = time_Now clk w1
                    in (None, emit (Logged \<lparr>level = ErrorLevel,
                                              log_fields = logger @ [(''error'', LErr err), (''duration'', LDur (now - start))],
                                              msg = ''failed to parse message JSON''\<rparr>) w2)
                | Inr sm \<Rightarrow>
                    let (ctx, w2) = context_WithTimeout clk timeout w1;
                        wqctx = \<lparr>ctxer_Context = ctx, ctxer_s = sc, ctxer_l = logger, ctxer_u = botUser,
                                 ctxer_c = csvc,
                                 ctxer_e = \<lparr>event_id = eid, event_time = et, enqueue_time = gt,
                                             transport_message_id = ID m\<rparr>\<rparr>;
                        (bht, w3) = time_Now clk w2;
                        (shouldRetry, discarded, err) = fn wqctx sm;
                        w4 = emit (HandlerReturned shouldRetry discarded err) (emit (HandlerInvoked wqctx sm) w3);
                        (hrd, w5) = time_Since clk bht w4;
                        w6 = cancel ctx w5;
                        logger = logger @ [(''handler_duration'', LDur hrd)]
                    in case err of
                         Some e \<Rightarrow>
                           if discarded then
                             let (now, w7) = time_Now clk w6
                             in (None, emit (Logged \<lparr>level = WarnLevel,
                                                       log_fields = logger @ [(''error'', LErr e), (''duration'', LDur (now - start))],
                                                       msg = ''discarded event''\<rparr>) w7)
                           else
                             let (now, w7) = time_Now clk w6;
                                 w8 = emit (Logged \<lparr>level = ErrorLevel,
                                                     log_fields = logger @ [(''error'', LErr e), (''should_retry'', LBool shouldRetry),
                                                                        (''duration'', LDur (now - start))],
                                                     msg = ''handler failed''\<rparr>) w7
                             in if shouldRetry then (Some e, w8) else (None, w8)
                       | None \<Rightarrow>
                           let (now, w7) = time_Now clk w6
                           in (None, emit (Logged \<lparr>level = InfoLevel,
                                                     log_fields = logger @ [(''duration'', LDur (now - start))],
                                                     msg = ''complete''\<rparr>) w7))"

definition teamJoinHandlerFactory ::
  "logger \<Rightarrow> ptr \<Rightarrow> ptr \<Rightarrow> ptr \<Rightarrow> Duration \<Rightarrow> 'a Handler \<Rightarrow> 'a Unmarshal \<Rightarrow>
   clock \<Rightarrow> Message \<Rightarrow> 'a world \<Rightarrow> error option \<times> 'a world" where
  "teamJoinHandlerFactory baseLogger sc botUser csvc timeout fn json_Unmarshal clk m w0 =
     (let flogger = baseLogger @ [(''handler'', LStr ''team_join'')];
          (start, w1) = time_Now clk w0;
          logger = flogger @ [(''redis_message'', LStr (ID m)), (''redis_stream'', LStr (Stream m))]
      in case parseGatewayMessage m of
           Inl err \<Rightarrow>
             let (now, w2) = time_Now clk w1
             in (None, emit (Logged \<lparr>level = ErrorLevel,
                                       log_fields = logger @ [(''error'', LErr err), (''duration'', LDur (now - start))],
                                       msg = ''failed to parse message from gateway''\<rparr>) w2)
         | Inr (eid, et, gt, d) \<Rightarrow>
             let logger = logger @ [(''event_time'', LTime et), (''event_id'', LStr eid), (''enqueued_time'', LTime gt)]
             in case json_Unmarshal d of
                  Inl err \<Rightarrow>
                    let (now, w2) = time_Now clk w1
                    in (None, emit (Logged \<lparr>level = ErrorLevel,
                                              log_fields = logger @ [(''error'', LErr err), (''duration'', LDur (now - start))],
                                              msg = ''failed to parse message JSON''\<rparr>) w2)
                | Inr stj \<Rightarrow>
                    let (ctx, w2) = context_WithTimeout clk timeout w1;
                        wqctx = \<lparr>ctxer_Context = ctx, ctxer_s = sc, ctxer_l = logger, ctxer_u = botUser,
                                 ctxer_c = csvc,
                                 ctxer_e = \<lparr>event_id = eid, event_time = et, enqueue_time = gt,
                                             transport_message_id = ID m\<rparr>\<rparr>;
                        (bht, w3) = time_Now clk w2;
                        (shouldRetry, discarded, err) = fn wqctx stj;
                        w4 = emit (HandlerReturned shouldRetry discarded err) (emit (HandlerInvoked wqctx stj) w3);
                        (hrd, w5) = time_Since clk bht w4;
                        w6 = cancel ctx w5;
                        logger = logger @ [(''handler_duration'', LDur hrd)]
                    in case err of
                         Some e \<Rightarrow>
                           if discarded then
                             let (now, w7) = time_Now clk w6
                             in (None, emit (Logged \<lparr>level = WarnLevel,
                                                       log_fields = logger @ [(''error'', LErr e), (''duration'', LDur (now - start))],
                                                       msg = ''discarded event''\<rparr>) w7)
                           else
                             let (now, w7) = time_Now clk w6;
                                 w8 = emit (Logged \<lparr>level = ErrorLevel,
                                                     log_fields = logger @ [(''error'', LErr e), (''should_retry'', LBool shouldRetry),
                                                                        (''duration'', LDur (now - start))],
                                                     msg = ''handler failed''\<rparr>) w7
                             in if shouldRetry then (Some e, w8) else (None, w8)
                       | None \<Rightarrow>
                           let (now, w7) = time_Now clk w6
                           in (None, emit (Logged \<lparr>level = InfoLevel,
                                                     log_fields = logger @ [(''duration'', LDur (now - start))],
                                                     msg = ''complete''\<rparr>) w7))"

definition channelJoinHandlerFactory ::
  "logger \<Rightarrow> ptr \<Rightarrow> ptr \<Rightarrow> ptr \<Rightarrow> Duration \<Rightarrow> 'a Handler \<Rightarrow> 'a Unmarshal \<Rightarrow>
   clock \<Rightarrow> Message \<Rightarrow> 'a world \<Rightarrow> error option \<times> 'a world" where
  "channelJoinHandlerFactory baseLogger sc botUser csvc timeout fn json_Unmarshal clk m w0 =
     (let flogger = baseLogger @ [(''handler'', LStr ''channel_join'')];
          (start, w1) = time_Now clk w0;
          logger = flogger @ [(''redis_message'', LStr (ID m)), (''redis_stream'', LStr (Stream m))]
      in case parseGatewayMessage m of
           Inl err \<Rightarrow>
             let (now, w2) = time_Now clk w1
             in (None, emit (Logged \<lparr>level = ErrorLevel,
                                       log_fields = logger @ [(''error'', LErr err), (''duration'', LDur (now - start))],
                                       msg = ''failed to parse message from gateway''\<rparr>) w2)
         | Inr (eid, et, gt, d) \<Rightarrow>
             let logger = logger @ [(''event_time'', LTime et), (''event_id'', LStr eid), (''enqueued_time'', LTime gt)]
             in case json_Unmarshal d of
                  Inl err \<Rightarrow>
                    let (now, w2) = time_Now clk w1
                    in (None, emit (Logged \<lparr>level = ErrorLevel,
                                              log_fields = logger @ [(''error'', LErr err), (''duration'', LDur (now - start))],
                                              msg = ''failed to parse message JSON''\<rparr>) w2)
                | Inr mjce \<Rightarrow>
                    let (ctx, w2) = context_WithTimeout clk timeout w1;
                        wqctx = \<lparr>ctxer_Context = ctx, ctxer_s = sc, ctxer_l = logger, ctxer_u = botUser,
                                 ctxer_c = csvc,
                                 ctxer_e = \<lparr>event_id = eid, event_time = et, enqueue_time = gt,
                                             transport_message_id = ID m\<rparr>\<rparr>;
                        (bht, w3) = time_Now clk w2;
                        (shouldRetry, discarded, err) = fn wqctx mjce;
                        w4 = emit (HandlerReturned shouldRetry discarded err) (emit (HandlerInvoked wqctx mjce) w3);
                        (hrd, w5) = time_Since clk bht w4;
                        w6 = cancel ctx w5;
                        logger = logger @ [(''handler_duration'', LDur hrd)]
                    in case err of
                         Some e \<Rightarrow>
                           if discarded then
                             let (now, w7) = time_Now clk w6
                             in (None, emit (Logged \<lparr>level = WarnLevel,
                                                       log_fields = logger @ [(''error'', LErr e), (''duration'', LDur (now - start))],
                                                       msg = ''discarded event''\<rparr>) w7)
                           else
                             let (now, w7) = time_Now clk w6;
                                 w8 = emit (Logged \<lparr>level = ErrorLevel,
                                                     log_fields = logger @ [(''error'', LErr e), (''should_retry'', LBool shouldRetry),
                                                                        (''duration'', LDur (now - start))],
                                                     msg = ''handler failed''\<rparr>) w7
                             in if shouldRetry then (Some e, w8) else (None, w8)
                       | None \<Rightarrow>
                           let (now, w7) = time_Now clk w6
                           in (None, emit (Logged \<lparr>level = InfoLevel,
                                                     log_fields = logger @ [(''duration'', LDur (now - start))],
                                                     msg = ''complete''\<rparr>) w7))"

subsection \<open>Registration\<close>

text \<open>
  The consumer of \<open>redisqueue\<close> keeps, for each stream, the id to read from and the
  function to call; \<open>RegisterWithLastID\<close> stores both under the stream's name. The
  work queue \<open>I\<close> holds the consumer, the logger and what the handlers are given (its
  fields \<open>c\<close>, \<open>l\<close>, \<open>sc\<close>, \<open>self\<close>, \<open>cs\<close>, here with the prefix \<open>I_\<close>).
\<close>

type_synonym 'f Consumer = "string \<rightharpoonup> (string \<times> 'f)"

definition RegisterWithLastID :: "string \<Rightarrow> string \<Rightarrow> 'f \<Rightarrow> 'f Consumer \<Rightarrow> 'f Consumer" where
  "RegisterWithLastID stream lastID fn cons = cons(stream \<mapsto> (lastID, fn))"

record 'f I =
  I_c :: "'f Consumer"
  I_l :: logger
  I_sc :: ptr
  I_self :: ptr
  I_cs :: ptr

type_synonym 'a ConsumerFunc = "clock \<Rightarrow> Message \<Rightarrow> 'a world \<Rightarrow> error option \<times> 'a world"

definition registerMessageHandler ::
  "string \<Rightarrow> Duration \<Rightarrow> 'a Handler \<Rightarrow> 'a Unmarshal \<Rightarrow> 'a ConsumerFunc I \<Rightarrow> 'a ConsumerFunc I" where
  "registerMessageHandler stream timeout fn json_Unmarshal i =
     i\<lparr>I_c := RegisterWithLastID stream ''$''
               (messageHandlerFactory (I_l i) (I_sc i) (I_self i) (I_cs i) timeout fn json_Unmarshal) (I_c i)\<rparr>"

definition RegisterPublicMessagesHandler ::
  "Duration \<Rightarrow> 'a Handler \<Rightarrow> 'a Unmarshal \<Rightarrow> 'a ConsumerFunc I \<Rightarrow> 'a ConsumerFunc I" where
  "RegisterPublicMessagesHandler timeout fn json_Unmarshal i =
     registerMessageHandler slackPublicMessage timeout fn json_Unmarshal i"

definition RegisterPrivateMessagesHandler ::
  "Duration \<Rightarrow> 'a Handler \<Rightarrow> 'a Unmarshal \<Rightarrow> 'a ConsumerFunc I \<Rightarrow> 'a ConsumerFunc I" where
  "RegisterPrivateMessagesHandler timeout fn json_Unmarshal i =
     registerMessageHandler slackPrivateMessage timeout fn json_Unmarshal i"

definition RegisterTeamJoinsHandler ::
  "Duration \<Rightarrow> 'a Handler \<Rightarrow> 'a Unmarshal \<Rightarrow> 'a ConsumerFunc I \<Rightarrow> 'a ConsumerFunc I" where
  "RegisterTeamJoinsHandler timeout fn json_Unmarshal i =
     i\<lparr>I_c := RegisterWithLastID slackTeamJoin ''$''
               (teamJoinHandlerFactory (I_l i) (I_sc i) (I_self i) (I_cs i) timeout fn json_Unmarshal) (I_c i)\<rparr>"

definition RegisterChannelJoinsHandler ::
  "Duration \<Rightarrow> 'a Handler \<Rightarrow> 'a Unmarshal \<Rightarrow> 'a ConsumerFunc I \<Rightarrow> 'a ConsumerFunc I" where
  "RegisterChannelJoinsHandler timeout fn json_Unmarshal i =
     i\<lparr>I_c := RegisterWithLastID slackChannelJoin ''$''
               (channelJoinHandlerFactory (I_l i) (I_sc i) (I_self i) (I_cs i) timeout fn json_Unmarshal) (I_c i)\<rparr>"

subsection \<open>The dispatch pipeline of the specification\<close>

text \<open>
  The specification describes one pipeline for every category: decode the envelope,
  decode the payload, build the context with the deadline, invoke the handler, cancel
  the context, classify the result, and acknowledge unless the failure is retryable.
  \<open>dispatch\<close> is that pipeline, written once and step by step, for comparison with the
  three factories above. Its parameter \<open>label\<close> is the value of the logging field
  \<open>handler\<close>.
\<close>

datatype Outcome =
    Success
  | DiscardedFailure error
  | RetryableFailure error
  | PermanentFailure error

definition classify :: "bool \<Rightarrow> bool \<Rightarrow> error option \<Rightarrow> Outcome" where
  "classify shouldRetry discarded err =
     (case err of
        None \<Rightarrow> Success
      | Some e \<Rightarrow>
          if discarded then DiscardedFailure e
          else if shouldRetry then RetryableFailure e
          else PermanentFailure e)"

definition to_transport :: "Outcome \<Rightarrow> error option" where
  "to_transport oc = (case oc of RetryableFailure e \<Rightarrow> Some e | _ \<Rightarrow> None)"

definition outcome_line :: "logger \<Rightarrow> Duration \<Rightarrow> Outcome \<Rightarrow> log_line" where
  "outcome_line lg dur oc =
     (case oc of
        Success \<Rightarrow>
          \<lparr>level = InfoLevel, log_fields = lg @ [(''duration'', LDur dur)], msg = ''complete''\<rparr>
      | DiscardedFailure e \<Rightarrow>
          \<lparr>level = WarnLevel, log_fields = lg @ [(''error'', LErr e), (''duration'', LDur dur)],
           msg = ''discarded event''\<rparr>
      | RetryableFailure e \<Rightarrow>
          \<lparr>level = ErrorLevel,
           log_fields = lg @ [(''error'', LErr e), (''should_retry'', LBool True), (''duration'', LDur dur)],
           msg = ''handler failed''\<rparr>
      | PermanentFailure e \<Rightarrow>
          \<lparr>level = ErrorLevel,
           log_fields = lg @ [(''error'', LErr e), (''should_retry'', LBool False), (''duration'', LDur dur)],
           msg = ''handler failed''\<rparr>)"

text \<open>Steps 1 and 2: a message that cannot be decoded is logged and acknowledged.\<close>

definition absorb :: "logger \<Rightarrow> instant \<Rightarrow> string \<Rightarrow> error \<Rightarrow> clock \<Rightarrow> 'a world \<Rightarrow> error option \<times> 'a world" where
  "absorb lg start text err clk w =
     (None, w\<lparr>reads := Suc (reads w),
              events := events w @ [Logged \<lparr>level = ErrorLevel,
                                          log_fields = lg @ [(''error'', LErr err),
                                                             (''duration'', LDur (clk (reads w) - start))],
                                          msg = text\<rparr>]\<rparr>)"

text \<open>Steps 3 to 6, for a decoded envelope and payload.\<close>

definition run_handler ::
  "logger \<Rightarrow> instant \<Rightarrow> ptr \<Rightarrow> ptr \<Rightarrow> ptr \<Rightarrow> Duration \<Rightarrow> 'a Handler \<Rightarrow> EventMetadata \<Rightarrow> 'a option \<Rightarrow>
   clock \<Rightarrow> 'a world \<Rightarrow> error option \<times> 'a world" where
  "run_handler lg start sc botUser csvc timeout fn meta payload clk w =
     (let n = reads w;
          ctx = \<lparr>deadline = clk n + timeout\<rparr>;
          dctx = \<lparr>ctxer_Context = ctx, ctxer_s = sc, ctxer_l = lg, ctxer_u = botUser, ctxer_c = csvc,
                  ctxer_e = meta\<rparr>;
          (shouldRetry, discarded, err) = fn dctx payload;
          oc = classify shouldRetry discarded err;
          lg' = lg @ [(''handler_duration'', LDur (clk (n + 2) - clk (n + 1)))]
      in (to_transport oc,
          w\<lparr>reads := n + 4,
            events := events w @ [ContextCreated ctx, HandlerInvoked dctx payload,
                                HandlerReturned shouldRetry discarded err, ContextCancelled ctx,
                                Logged (outcome_line lg' (clk (n + 3) - start) oc)]\<rparr>))"

definition dispatch ::
  "string \<Rightarrow> logger \<Rightarrow> ptr \<Rightarrow> ptr \<Rightarrow> ptr \<Rightarrow> Duration \<Rightarrow> 'a Handler \<Rightarrow> 'a Unmarshal \<Rightarrow>
   clock \<Rightarrow> Message \<Rightarrow> 'a world \<Rightarrow> error option \<times> 'a world" where
  "dispatch label baseLogger sc botUser csvc timeout fn json_Unmarshal clk m w =
     (let start = clk (reads w);
          w1 = w\<lparr>reads := Suc (reads w)\<rparr>;
          lg = baseLogger @ [(''handler'', LStr label), (''redis_message'', LStr (ID m)),
                             (''redis_stream'', LStr (Stream m))]
      in case parseGatewayMessage m of
           Inl err \<Rightarrow> absorb lg start ''failed to parse message from gateway'' err clk w1
         | Inr (eid, et, gt, d) \<Rightarrow>
             let lg' = lg @ [(''event_time'', LTime et), (''event_id'', LStr eid), (''enqueued_time'', LTime gt)]
             in case json_Unmarshal d of
                  Inl err \<Rightarrow> absorb lg' start ''failed to parse message JSON'' err clk w1
                | Inr payload \<Rightarrow>
                    run_handler lg' start sc botUser csvc timeout fn
                      \<lparr>event_id = eid, event_time = et, enqueue_time = gt, transport_message_id = ID m\<rparr>
                      payload clk w1)"

text \<open>
  What a dispatch shows of itself whatever the type of the event and the name of the
  handler: the order of its effects, the deadline, the metadata given to the handler,
  the handler's result, and the severity and the text of each log line. The payload and
  the fields of the log lines are left out.
\<close>

datatype shape =
    SLogged Level string
  | SContextCreated Context
  | SHandlerInvoked Context EventMetadata
  | SHandlerReturned bool bool "error option"
  | SContextCancelled Context

fun event_shape :: "'a event \<Rightarrow> shape" where
  "event_shape (Logged line) = SLogged (level line) (msg line)"
| "event_shape (ContextCreated ctx) = SContextCreated ctx"
| "event_shape (HandlerInvoked wqctx ev) = SHandlerInvoked (ctxer_Context wqctx) (ctxer_e wqctx)"
| "event_shape (HandlerReturned shouldRetry discarded err) = SHandlerReturned shouldRetry discarded err"
| "event_shape (ContextCancelled ctx) = SContextCancelled ctx"

section \<open>Example inputs\<close>

text \<open>
  Concrete inputs at which the theorems below are instantiated: the envelope of the
  specification's scenario as Redis delivers it, the same envelope without its
  \<open>request_id\<close> and without its \<open>event_id\<close>, envelopes with a zero and a negative
  timestamp, with an empty payload, with a timestamp that is not a string and with one
  that is not a number, an envelope with no field at all, a clock whose readings are
  200 milliseconds apart, a decoder of the payload, and one handler for each kind of
  result.
\<close>

definition example_envelope :: Message where
  \<open>example_envelope =
     \<lparr>ID = ''1700000000600-0'',
      Stream = ''slack_message_public'',
      Values = [''request_id'' \<mapsto> VString ''r1'',
                ''event_id'' \<mapsto> VString ''e1'',
                ''event_ts'' \<mapsto> VString ''1700000000'',
                ''gateway_ts'' \<mapsto> VString ''1700000000500'',
                ''json'' \<mapsto> VString ''{"ok":true}'']\<rparr>\<close>

definition envelope_without_request_id :: Message where
  \<open>envelope_without_request_id =
     \<lparr>ID = ''1700000000600-0'',
      Stream = ''slack_message_public'',
      Values = [''event_id'' \<mapsto> VString ''e1'',
                ''event_ts'' \<mapsto> VString ''1700000000'',
                ''gateway_ts'' \<mapsto> VString ''1700000000500'',
                ''json'' \<mapsto> VString ''{"ok":true}'']\<rparr>\<close>

definition envelope_without_event_id :: Message where
  \<open>envelope_without_event_id =
     \<lparr>ID = ''1700000000600-0'',
      Stream = ''slack_message_public'',
      Values = [''request_id'' \<mapsto> VString ''r1'',
                ''event_ts'' \<mapsto> VString ''1700000000'',
                ''gateway_ts'' \<mapsto> VString ''1700000000500'',
                ''json'' \<mapsto> VString ''{"ok":true}'']\<rparr>\<close>

definition envelope_before_epoch :: Message where
  \<open>envelope_before_epoch =
     \<lparr>ID = ''1-0'',
      Stream = ''slack_team_join'',
      Values = [''request_id'' \<mapsto> VString ''r2'',
                ''event_id'' \<mapsto> VString ''e2'',
                ''event_ts'' \<mapsto> VString ''0'',
                ''gateway_ts'' \<mapsto> VString ''-1500'',
                ''json'' \<mapsto> VString ''{}'']\<rparr>\<close>

definition envelope_empty_json :: Message where
  "envelope_empty_json =
     \<lparr>ID = ''3-0'',
      Stream = ''slack_channel_join'',
      Values = [''request_id'' \<mapsto> VString ''r3'',
                ''event_id'' \<mapsto> VString ''e3'',
                ''event_ts'' \<mapsto> VString ''1700000000'',
                ''gateway_ts'' \<mapsto> VString ''1700000000500'',
                ''json'' \<mapsto> VString []]\<rparr>"

definition envelope_event_ts_not_string :: Message where
  "envelope_event_ts_not_string =
     \<lparr>ID = ''4-0'',
      Stream = ''slack_message_private'',
      Values = [''request_id'' \<mapsto> VString ''r4'',
                ''event_id'' \<mapsto> VString ''e4'',
                ''event_ts'' \<mapsto> VInt 1700000000,
                ''gateway_ts'' \<mapsto> VString ''1700000000500'',
                ''json'' \<mapsto> VString ''{}'']\<rparr>"

definition envelope_gateway_ts_not_numeric :: Message where
  "envelope_gateway_ts_not_numeric =
     \<lparr>ID = ''5-0'',
      Stream = ''slack_message_private'',
      Values = [''request_id'' \<mapsto> VString ''r5'',
                ''event_id'' \<mapsto> VString ''e5'',
                ''event_ts'' \<mapsto> VString ''1700000000'',
                ''gateway_ts'' \<mapsto> VString ''soon'',
                ''json'' \<mapsto> VString ''{}'']\<rparr>"

definition empty_envelope :: Message where
  "empty_envelope = \<lparr>ID = ''2-0'', Stream = ''slack_team_join'', Values = Map.empty\<rparr>"

definition slow_clock :: clock where
  "slow_clock n = 200000000 * int n"

definition example_decode :: "string \<Rightarrow> error + string" where
  "example_decode d = (if d = [] then Inl (errors_New ''unexpected end of JSON input'') else Inr d)"

definition handler_ok :: "string Handler" where
  "handler_ok ctx ev = (False, False, None)"

definition handler_retry :: "string Handler" where
  "handler_retry ctx ev = (True, False, Some (errors_New ''slack unavailable''))"

definition handler_discard :: "string Handler" where
  "handler_discard ctx ev = (True, True, Some (errors_New ''not a channel of ours''))"

definition handler_fail :: "string Handler" where
  "handler_fail ctx ev = (False, False, Some (errors_New ''bad event''))"

definition world0 :: "string world" where
  "world0 = \<lparr>reads = 0, events = []\<rparr>"

section \<open>Decimal conversion round trip\<close>

lemma less_10_cases: "d < 10 \<Longrightarrow> d \<in> {0, 1, 2, 3, 4, 5, 6, 7, 8, 9::nat}"
  by auto

lemma is_digit_digit_char: "d < 10 \<Longrightarrow> is_digit (digit_char d)"
  by (drule less_10_cases) (auto simp: is_digit_def digit_char_def)

lemma digit_val_digit_char: "d < 10 \<Longrightarrow> digit_val (digit_char d) = d"
  by (drule less_10_cases) (auto simp: digit_val_def digit_char_def)

lemma parse_digits_append:
  "parse_digits a (xs @ ys) = (case parse_digits a xs of Inl e \<Rightarrow> Inl e | Inr n \<Rightarrow> parse_digits n ys)"
  by (induction xs arbitrary: a) (auto simp: Let_def)

lemma parse_digits_one:
  assumes "n < 2 ^ 64"
  shows "parse_digits (n div 10) [digit_char (n mod 10)] = Inr n"
proof -
  have "n div 10 < uint_cutoff" using assms by (simp add: uint_cutoff_def)
  then show ?thesis using assms
    by (simp add: is_digit_digit_char digit_val_digit_char Let_def)
qed

lemma parse_digits_format_uint: "n < 2 ^ 64 \<Longrightarrow> parse_digits 0 (format_uint n) = Inr n"
proof (induction n rule: format_uint.induct)
  case (1 n)
  show ?case
  proof (cases "n < 10")
    case True
    then have "n div 10 = 0" "n mod 10 = n" by simp_all
    with parse_digits_one [OF "1.prems"] True show ?thesis
      by (simp add: format_uint.simps [of n])
  next
    case False
    have "n div 10 < 2 ^ 64" using "1.prems" by simp
    with "1.IH" False have "parse_digits 0 (format_uint (n div 10)) = Inr (n div 10)" by simp
    with False parse_digits_one [OF "1.prems"] show ?thesis
      by (simp add: format_uint.simps [of n] parse_digits_append)
  qed
qed

lemma format_uint_hd: "\<exists>c cs. format_uint n = c # cs \<and> is_digit c"
proof (induction n rule: format_uint.induct)
  case (1 n)
  show ?case
  proof (cases "n < 10")
    case True
    then show ?thesis by (simp add: format_uint.simps [of n] is_digit_digit_char)
  next
    case False
    with "1.IH" obtain c cs where "format_uint (n div 10) = c # cs" "is_digit c" by auto
    with False show ?thesis by (simp add: format_uint.simps [of n])
  qed
qed

lemma is_digit_not_sign: "is_digit c \<Longrightarrow> c \<noteq> CHR ''+'' \<and> c \<noteq> CHR ''-''"
  by (auto simp: is_digit_def)

lemma ParseUint_format_uint: "n < 2 ^ 64 \<Longrightarrow> ParseUint (format_uint n) = Inr n"
  using format_uint_hd [of n] by (auto simp: ParseUint_def parse_digits_format_uint)

lemma ParseInt_FormatInt: "ParseInt (FormatInt i) = Inr i"
proof (cases "sint i < 0")
  case True
  have lo: "- (2 ^ 63) \<le> sint i" using sint_ge [of i] by simp
  define un where "un = nat (- sint i)"
  have un: "un \<le> 2 ^ 63" "un < 2 ^ 64" using lo True by (auto simp: un_def nat_le_iff)
  have "(word_of_nat un :: int64) = word_of_int (- sint i)"
    using True by (simp add: un_def)
  then have w: "- (word_of_nat un :: int64) = i" by simp
  have "FormatInt i = CHR ''-'' # format_uint un" using True by (simp add: FormatInt_def un_def)
  then show ?thesis using un w
    by (simp add: ParseInt_def ParseUint_format_uint)
next
  case False
  have hi: "sint i < 2 ^ 63" using sint_lt [of i] by simp
  define un where "un = nat (sint i)"
  have un: "un < 2 ^ 63" "un < 2 ^ 64" using hi False by (auto simp: un_def nat_less_iff)
  have w: "(word_of_nat un :: int64) = i" using False by (simp add: un_def)
  obtain c cs where f: "format_uint un = c # cs" "is_digit c" using format_uint_hd by blast
  have "FormatInt i = format_uint un" using False by (simp add: FormatInt_def un_def)
  then show ?thesis using un w f is_digit_not_sign [OF f(2)] ParseUint_format_uint [of un]
    by (simp add: ParseInt_def)
qed

section \<open>Truncating division on 64 bits\<close>

lemma sdiv_nonneg: "0 \<le> k \<Longrightarrow> 0 < l \<Longrightarrow> (k::int) sdiv l = k div l"
  by (cases "k = 0") (simp_all add: signed_divide_int_def)

lemma sdiv_negative: "k < 0 \<Longrightarrow> 0 < l \<Longrightarrow> (k::int) sdiv l = - ((- k) div l)"
  by (simp add: signed_divide_int_def)

lemma smod_nonneg: "0 \<le> k \<Longrightarrow> 0 < l \<Longrightarrow> (k::int) smod l = k mod l"
  by (cases "k = 0") (simp_all add: signed_modulo_int_def)

lemma smod_negative: "k < 0 \<Longrightarrow> 0 < l \<Longrightarrow> (k::int) smod l = - ((- k) mod l)"
  by (simp add: signed_modulo_int_def)

lemma div_le_self_int: "0 \<le> k \<Longrightarrow> 0 < l \<Longrightarrow> (k::int) div l \<le> k"
  using zdiv_mono2 [of k 1 l] by simp

lemma sdiv_bounds:
  assumes "0 < l"
  shows "min k 0 \<le> (k::int) sdiv l" and "k sdiv l \<le> max k 0"
proof -
  show "min k 0 \<le> k sdiv l"
  proof (cases "k < 0")
    case True
    then have "(- k) div l \<le> - k" using assms by (intro div_le_self_int) simp_all
    with True assms show ?thesis by (simp add: sdiv_negative)
  next
    case False
    then have "0 \<le> k div l" using assms by (simp add: pos_imp_zdiv_nonneg_iff)
    with False assms show ?thesis by (simp add: sdiv_nonneg)
  qed
  show "k sdiv l \<le> max k 0"
  proof (cases "k < 0")
    case True
    then have "0 \<le> (- k) div l" using assms by (simp add: pos_imp_zdiv_nonneg_iff)
    with True assms show ?thesis by (simp add: sdiv_negative)
  next
    case False
    then have "k div l \<le> k" using assms by (intro div_le_self_int) simp_all
    with False assms show ?thesis by (simp add: sdiv_nonneg)
  qed
qed

lemma smod_bounds:
  assumes "0 < l"
  shows "- l < (k::int) smod l" and "k smod l < l"
proof -
  have p: "0 \<le> k mod l" "k mod l < l" "0 \<le> (- k) mod l" "(- k) mod l < l"
    using assms by simp_all
  have "k smod l = (if k < 0 then - ((- k) mod l) else k mod l)"
    using assms by (simp add: smod_nonneg smod_negative)
  then have "k smod l = - ((- k) mod l) \<or> k smod l = k mod l" by simp
  then show "- l < k smod l" and "k smod l < l"
    using p assms by linarith+
qed

lemma smod_sign:
  assumes "0 < l"
  shows "0 \<le> k \<Longrightarrow> 0 \<le> (k::int) smod l" and "k < 0 \<Longrightarrow> k smod l \<le> 0"
  using assms by (simp_all add: smod_nonneg smod_negative)

lemma sint64_of_int: "- (2 ^ 63) \<le> k \<Longrightarrow> k < 2 ^ 63 \<Longrightarrow> sint (word_of_int k :: int64) = k"
  using signed_take_bit_int_eq_self [of 63 k] by (simp add: sint_sbintrunc')

lemma sint64_range: "- (2 ^ 63) \<le> sint (w :: int64)" "sint (w :: int64) < 2 ^ 63"
  using sint_ge [of w] sint_lt [of w] by simp_all

lemma sint_quo64:
  assumes "0 < sint b"
  shows "sint (quo64 a b) = sint a sdiv sint b"
proof -
  have "- (2 ^ 63) \<le> sint a sdiv sint b" "sint a sdiv sint b < 2 ^ 63"
    using sdiv_bounds [OF assms, of "sint a"] sint64_range [of a] by linarith+
  then show ?thesis unfolding quo64_def by (rule sint64_of_int)
qed

lemma sint_rem64:
  assumes "0 < sint b"
  shows "sint (rem64 a b) = sint a smod sint b"
proof -
  have "- (2 ^ 63) \<le> sint a smod sint b" "sint a smod sint b < 2 ^ 63"
    using smod_bounds [OF assms, of "sint a"] sint64_range [of b] by linarith+
  then show ?thesis unfolding rem64_def by (rule sint64_of_int)
qed

lemma sint_unix_fst: "sint (fst (unix g)) = sint g sdiv 1000"
  by (simp add: unix_def sint_quo64)

lemma sint_unix_snd: "sint (snd (unix g)) = (sint g smod 1000) * 1000000"
proof -
  have b: "- 1000 < sint g smod 1000" "sint g smod 1000 < 1000"
    using smod_bounds [of 1000 "sint g"] by simp_all
  have "snd (unix g) = word_of_int ((sint g smod 1000) * 1000000)"
    by (simp add: unix_def rem64_def Millisecond_def)
  moreover have "sint (word_of_int ((sint g smod 1000) * 1000000) :: int64) = (sint g smod 1000) * 1000000"
    using b by (intro sint64_of_int) simp_all
  ultimately show ?thesis by simp
qed

lemma mult_sdiv_cancel: "0 < l \<Longrightarrow> ((r::int) * l) sdiv l = r"
  by (simp add: signed_divide_int_def abs_mult sgn_mult sgn_mult_abs)

lemma unix_exact_int:
  "1000 * (sint g sdiv 1000) + ((sint g smod 1000) * 1000000) sdiv 1000000 = sint g"
  using mult_sdiv_smod_eq [of 1000 "sint g"] by (simp add: mult_sdiv_cancel)


lemma smod_eq_0_dvd:
  assumes "0 < l"
  shows "(k::int) smod l = 0 \<longleftrightarrow> l dvd k"
proof -
  have "k smod l = 0 \<longleftrightarrow> k = 0 \<or> \<bar>k\<bar> mod l = 0"
    using assms by (simp add: signed_modulo_int_def sgn_if)
  also have "\<dots> \<longleftrightarrow> l dvd \<bar>k\<bar>"
    by (auto simp: mod_eq_0_iff_dvd)
  finally show ?thesis by simp
qed

lemma floor_of_trunc_neg:
  assumes "0 < l" "(k::int) smod l < 0"
  shows "k div l = k sdiv l - 1" and "k mod l = k smod l + l"
proof -
  have "k < 0" using assms smod_sign(1) [of l k] by (cases "k < 0") auto
  moreover have "\<not> l dvd k" using assms smod_eq_0_dvd [of l k] by auto
  ultimately have c: "l \<noteq> 0 \<and> sgn k \<noteq> sgn l \<and> \<not> l dvd k" using assms by simp
  show "k div l = k sdiv l - 1"
    using c by (simp add: divide_int_eq_signed_divide_int [of k l])
  show "k mod l = k smod l + l"
    using c by (simp add: modulo_int_eq_signed_modulo_int [of k l])
qed

lemma floor_of_trunc_nonneg:
  assumes "0 < l" "0 \<le> (k::int) smod l"
  shows "k div l = k sdiv l" and "k mod l = k smod l"
proof -
  have c: "sgn k = sgn l \<or> l dvd k"
  proof (cases "k < 0")
    case True
    then have "k smod l = 0" using assms smod_sign(2) [of l k] by simp
    then show ?thesis using assms smod_eq_0_dvd [of l k] by simp
  next
    case False
    then show ?thesis using assms by (cases "k = 0") simp_all
  qed
  show "k div l = k sdiv l"
    using c by (auto simp: divide_int_eq_signed_divide_int [of k l])
  show "k mod l = k smod l"
    using c by (auto simp: modulo_int_eq_signed_modulo_int [of k l])
qed

lemma time_Unix_unix:
  "sint (unix_sec (time_Unix (fst (unix g)) (snd (unix g)))) = sint g div 1000 \<and>
   sint (nanosecond (time_Unix (fst (unix g)) (snd (unix g)))) = (sint g mod 1000) * 1000000"
proof -
  define k where "k = sint g"
  define s ns where "s = fst (unix g)" and "ns = snd (unix g)"
  have s: "sint s = k sdiv 1000" by (simp add: s_def k_def sint_unix_fst)
  have ns: "sint ns = (k smod 1000) * 1000000" by (simp add: ns_def k_def sint_unix_snd)
  have kr: "- (2 ^ 63) \<le> k" "k < 2 ^ 63" using sint64_range [of g] by (simp_all add: k_def)
  have rb: "- 1000 < k smod 1000" "k smod 1000 < 1000"
    using smod_bounds [of 1000 k] by simp_all
  have qb: "min k 0 \<le> k sdiv 1000" "k sdiv 1000 \<le> max k 0"
    using sdiv_bounds [of 1000 k] by simp_all
  have "sint (unix_sec (time_Unix s ns)) = k div 1000 \<and>
        sint (nanosecond (time_Unix s ns)) = (k mod 1000) * 1000000"
  proof (cases "k smod 1000 < 0")
    case False
    then have r0: "0 \<le> k smod 1000" by simp
    have nsr: "\<not> (sint ns < 0 \<or> sint ns \<ge> 1000000000)" using r0 rb ns by simp
    show ?thesis
      using nsr s ns floor_of_trunc_nonneg [of 1000 k, OF _ r0] by (simp add: time_Unix_def)
  next
    case True
    have fl: "k div 1000 = k sdiv 1000 - 1" "k mod 1000 = k smod 1000 + 1000"
      using floor_of_trunc_neg [of 1000 k] True by simp_all
    have nsneg: "sint ns < 0" using True ns by simp
    have nlo: "- 1000000000 < sint ns" using rb ns by simp
    have "sint ns sdiv 1000000000 = 0"
      using nsneg nlo by (simp add: sdiv_negative div_pos_pos_trivial)
    then have n0: "quo64 ns 1000000000 = 0" by (simp add: quo64_def)
    have k0: "k < 0" using True smod_sign(1) [of 1000 k] by (cases "k < 0") auto
    have tu: "time_Unix s ns = \<lparr>unix_sec = s - 1, nanosecond = ns + 1000000000\<rparr>"
      using nsneg n0 by (simp add: time_Unix_def)
    have "s - 1 = word_of_int (sint s - 1)" by simp
    moreover have "(- k) div 1000 \<le> 9223372036854775808 div 1000"
      using kr by (intro zdiv_mono1) simp_all
    then have "- 9223372036854775808 < k sdiv 1000 - 1"
      using k0 by (simp add: sdiv_negative)
    then have "sint (word_of_int (sint s - 1) :: int64) = sint s - 1"
      using s qb k0 by (intro sint64_of_int) simp_all
    ultimately have a: "sint (s - 1) = k div 1000" using s fl by simp
    have "ns + 1000000000 = word_of_int (sint ns + 1000000000)" by simp
    moreover have "sint (word_of_int (sint ns + 1000000000) :: int64) = sint ns + 1000000000"
      using nsneg nlo by (intro sint64_of_int) simp_all
    ultimately have b: "sint (ns + 1000000000) = (k mod 1000) * 1000000" using ns fl by simp
    show ?thesis using tu a b by simp
  qed
  then show ?thesis by (simp add: s_def ns_def k_def)
qed

lemma UnixMilli_time_Unix_unix: "UnixMilli (time_Unix (fst (unix g)) (snd (unix g))) = g"
proof -
  define t where "t = time_Unix (fst (unix g)) (snd (unix g))"
  have a: "sint (unix_sec t) = sint g div 1000" and b: "sint (nanosecond t) = (sint g mod 1000) * 1000000"
    using time_Unix_unix [of g] by (simp_all add: t_def)
  have "sint (nanosecond t) sdiv 1000000 = sint g mod 1000"
    using b by (simp add: mult_sdiv_cancel)
  then have "quo64 (nanosecond t) 1000000 = word_of_int (sint g mod 1000)"
    by (simp add: quo64_def)
  moreover have "unix_sec t = word_of_int (sint g div 1000)"
    using a [symmetric] by simp
  ultimately have "UnixMilli t = word_of_int (sint g div 1000) * 1000 + word_of_int (sint g mod 1000)"
    by (simp add: UnixMilli_def)
  also have "\<dots> = word_of_int (sint g div 1000 * 1000 + sint g mod 1000)"
    by (simp only: of_int_add of_int_mult of_int_numeral)
  also have "\<dots> = g" by simp
  finally show ?thesis by (simp add: t_def)
qed

section \<open>The factories and the pipeline\<close>

lemmas world_ops = time_Now_def time_Since_def emit_def context_WithTimeout_def cancel_def

lemma messageHandlerFactory_dispatch:
  "messageHandlerFactory baseLogger sc botUser csvc timeout fn unm clk m w =
   dispatch ''message'' baseLogger sc botUser csvc timeout fn unm clk m w"
  by (simp add: messageHandlerFactory_def dispatch_def absorb_def run_handler_def world_ops
      classify_def to_transport_def outcome_line_def Let_def eval_nat_numeral
      split: sum.split prod.split option.split)

lemma teamJoinHandlerFactory_dispatch:
  "teamJoinHandlerFactory baseLogger sc botUser csvc timeout fn unm clk m w =
   dispatch ''team_join'' baseLogger sc botUser csvc timeout fn unm clk m w"
  by (simp add: teamJoinHandlerFactory_def dispatch_def absorb_def run_handler_def world_ops
      classify_def to_transport_def outcome_line_def Let_def eval_nat_numeral
      split: sum.split prod.split option.split)

lemma channelJoinHandlerFactory_dispatch:
  "channelJoinHandlerFactory baseLogger sc botUser csvc timeout fn unm clk m w =
   dispatch ''channel_join'' baseLogger sc botUser csvc timeout fn unm clk m w"
  by (simp add: channelJoinHandlerFactory_def dispatch_def absorb_def run_handler_def world_ops
      classify_def to_transport_def outcome_line_def Let_def eval_nat_numeral
      split: sum.split prod.split option.split)

section \<open>Decoding what was published\<close>

lemma time_Unix_0: "time_Unix sec 0 = \<lparr>unix_sec = sec, nanosecond = 0\<rparr>"
  by (simp add: time_Unix_def)

lemma parseGatewayMessage_strings:
  assumes "Values m ''event_ts'' = Some (VString ets)"
    and "Values m ''gateway_ts'' = Some (VString gts)"
    and "Values m ''event_id'' = Some (VString eid)"
    and "Values m ''json'' = Some (VString d)"
  shows "parseGatewayMessage m =
     (case ParseInt ets of
        Inl err \<Rightarrow> Inl (fmt_Errorf ''failed to parse event_ts %q: %w'' ets err)
      | Inr et \<Rightarrow>
     (case ParseInt gts of
        Inl err \<Rightarrow> Inl (fmt_Errorf ''failed to parse gateway_ts %q: %w'' gts err)
      | Inr gt \<Rightarrow>
          Inr (eid, \<lparr>unix_sec = et, nanosecond = 0\<rparr>,
               time_Unix (quo64 gt 1000) (rem64 gt 1000 * Millisecond), d)))"
  using assms by (simp add: parseGatewayMessage_def unix_def time_Unix_0 split: sum.split)

lemma parseGatewayMessage_Publish:
  "parseGatewayMessage (Publish now e ts eid rid payload) =
   Inr (eid, \<lparr>unix_sec = ts, nanosecond = 0\<rparr>,
        time_Unix (quo64 (quo64 now Millisecond) 1000) (rem64 (quo64 now Millisecond) 1000 * Millisecond),
        payload)"
  by (subst parseGatewayMessage_strings [where ets = "FormatInt ts"
        and gts = "FormatInt (quo64 now Millisecond)" and eid = eid and d = payload])
     (simp_all add: Publish_def ParseInt_FormatInt)


text \<open>
  Claim C4. For every input of \<open>Publish\<close> (event, event time in seconds, event id,
  request id, payload) and every reading of the clock, decoding the message that
  \<open>Publish\<close> builds succeeds and returns the event id and the payload unchanged, the
  event time as that whole second, and an enqueue time whose reading in milliseconds is
  the clock reading \<open>time.Now().UnixNano()\<close> of \<open>Publish\<close> divided by one million: the
  caller does not supply it.
\<close>

theorem publish_decode_roundtrip:
  "\<exists>et gt. parseGatewayMessage (Publish now e ts eid rid payload) = Inr (eid, et, gt, payload) \<and>
     Unix et = ts \<and> nanosecond et = 0 \<and>
     UnixMilli gt = quo64 now Millisecond \<and>
     sint (UnixMilli gt) = sint now sdiv 1000000"
proof -
  have "UnixMilli (time_Unix (fst (unix (quo64 now Millisecond))) (snd (unix (quo64 now Millisecond))))
        = quo64 now Millisecond"
    by (rule UnixMilli_time_Unix_unix)
  moreover have "sint (quo64 now Millisecond) = sint now sdiv 1000000"
    using sint_quo64 [of Millisecond now] by (simp add: Millisecond_def)
  ultimately show ?thesis
    by (simp add: parseGatewayMessage_Publish Unix_def unix_def)
qed

section \<open>Decoding timestamps\<close>

lemmas ParseInt_eval = ParseInt_def ParseUint_def is_digit_def digit_val_def uint_cutoff_def
lemmas div64_eval = quo64_def rem64_def Millisecond_def signed_divide_int_def signed_modulo_int_def

lemma ParseInt_examples:
  "ParseInt ''1700000000'' = Inr 1700000000"
  "ParseInt ''1700000000500'' = Inr 1700000000500"
  "ParseInt ''0'' = Inr 0"
  "ParseInt ''-1500'' = Inr (- 1500)"
  by (simp_all add: ParseInt_eval)

text \<open>
  Claim C5. Decoding rebuilds the event time from \<open>event_ts\<close> as \<open>time.Unix (et, 0)\<close>, a
  time of whole seconds with no nanoseconds, and the enqueue time from \<open>gateway_ts\<close> by
  splitting the milliseconds \<open>g\<close> into the seconds \<open>g / 1000\<close> and the nanoseconds
  \<open>(g % 1000) * 1000000\<close>, which it gives to \<open>time.Unix\<close>. The envelope of the
  specification's scenario decodes to the event time 1700000000 s, the enqueue time
  1700000000.5 s and the payload it carries.
\<close>

theorem decode_timestamps:
  \<open>(Values m ''event_ts'' = Some (VString ets) \<and> Values m ''gateway_ts'' = Some (VString gts) \<and>
    Values m ''event_id'' = Some (VString eid) \<and> Values m ''json'' = Some (VString d) \<and>
    ParseInt ets = Inr et \<and> ParseInt gts = Inr g \<longrightarrow>
      parseGatewayMessage m =
        Inr (eid, time_Unix et 0, time_Unix (quo64 g 1000) (rem64 g 1000 * Millisecond), d) \<and>
      nanosecond (time_Unix et 0) = 0 \<and> Unix (time_Unix et 0) = et \<and>
      unix g = (quo64 g 1000, rem64 g 1000 * 1000000))
   \<and> parseGatewayMessage example_envelope =
       Inr (''e1'', \<lparr>unix_sec = 1700000000, nanosecond = 0\<rparr>,
            \<lparr>unix_sec = 1700000000, nanosecond = 500000000\<rparr>, ''{"ok":true}'')\<close>
proof -
  have \<open>parseGatewayMessage example_envelope =
       Inr (''e1'', \<lparr>unix_sec = 1700000000, nanosecond = 0\<rparr>,
            \<lparr>unix_sec = 1700000000, nanosecond = 500000000\<rparr>, ''{"ok":true}'')\<close>
    by (subst parseGatewayMessage_strings [where ets = "''1700000000''" and gts = "''1700000000500''"
          and eid = "''e1''" and d = \<open>''{"ok":true}''\<close>])
       (simp_all add: example_envelope_def ParseInt_examples div64_eval time_Unix_def)
  then show ?thesis
    by (auto simp: parseGatewayMessage_strings time_Unix_0 Unix_def unix_def Millisecond_def)
qed

theorem decode_timestamps_witness:
  \<open>parseGatewayMessage envelope_before_epoch =
     Inr (''e2'', \<lparr>unix_sec = 0, nanosecond = 0\<rparr>, \<lparr>unix_sec = - 2, nanosecond = 500000000\<rparr>, ''{}'') \<and>
   unix (- 1500) = (- 1, - 500000000)\<close>
  using decode_timestamps [of envelope_before_epoch "''0''" "''-1500''" "''e2''" "''{}''" 0 "- 1500"]
  by (simp add: envelope_before_epoch_def ParseInt_examples div64_eval time_Unix_def)

text \<open>
  Claim C10. Decoding checks no range: whenever the four fields are strings and both
  timestamps parse as 64-bit integers, zero and negative ones too, decoding succeeds,
  and every 64-bit integer is the value of some text (the one \<open>FormatInt\<close> writes). The
  split of the milliseconds is exact on 64 bits: the quotient is \<open>g / 1000\<close> truncated
  towards zero, the remainder times one million is computed without overflow, and the
  two give \<open>g\<close> back.
\<close>

theorem decode_no_range_validation:
  assumes "Values m ''event_ts'' = Some (VString ets)"
    and "Values m ''gateway_ts'' = Some (VString gts)"
    and "Values m ''event_id'' = Some (VString eid)"
    and "Values m ''json'' = Some (VString d)"
    and "ParseInt ets = Inr et"
    and "ParseInt gts = Inr g"
  shows "(\<exists>t1 t2. parseGatewayMessage m = Inr (eid, t1, t2, d)) \<and>
         sint (fst (unix g)) = sint g sdiv 1000 \<and>
         sint (snd (unix g)) = (sint g smod 1000) * 1000000 \<and>
         1000 * sint (fst (unix g)) + sint (snd (unix g)) sdiv 1000000 = sint g \<and>
         ParseInt (FormatInt et) = Inr et \<and> ParseInt (FormatInt g) = Inr g"
  using assms unix_exact_int [of g]
  by (simp add: parseGatewayMessage_strings sint_unix_fst sint_unix_snd ParseInt_FormatInt)

theorem decode_no_range_validation_witness:
  "(\<exists>t1 t2. parseGatewayMessage envelope_before_epoch = Inr (''e2'', t1, t2, ''{}'')) \<and>
   sint (fst (unix (- 1500))) = - 1 \<and> sint (snd (unix (- 1500))) = - 500000000 \<and>
   ParseInt ''0'' = Inr 0 \<and> ParseInt ''-1500'' = Inr (- 1500)"
proof -
  have v: "Values envelope_before_epoch ''event_ts'' = Some (VString ''0'')"
    "Values envelope_before_epoch ''gateway_ts'' = Some (VString ''-1500'')"
    "Values envelope_before_epoch ''event_id'' = Some (VString ''e2'')"
    "Values envelope_before_epoch ''json'' = Some (VString ''{}'')"
    by (simp_all add: envelope_before_epoch_def)
  have "(- 1500 :: int) sdiv 1000 = - 1" "(- 1500 :: int) smod 1000 = - 500"
    by (simp_all add: signed_divide_int_def signed_modulo_int_def)
  then show ?thesis
    using decode_no_range_validation [OF v ParseInt_examples(3) ParseInt_examples(4)]
    by (simp add: ParseInt_examples)
qed

section \<open>The dispatch of one message\<close>

lemma factory_is_dispatch:
  assumes "wrapper \<in> {messageHandlerFactory, teamJoinHandlerFactory, channelJoinHandlerFactory}"
  shows "\<exists>label. wrapper = dispatch label"
proof -
  have "messageHandlerFactory = dispatch ''message''"
    by (intro ext) (rule messageHandlerFactory_dispatch)
  moreover have "teamJoinHandlerFactory = dispatch ''team_join''"
    by (intro ext) (rule teamJoinHandlerFactory_dispatch)
  moreover have "channelJoinHandlerFactory = dispatch ''channel_join''"
    by (intro ext) (rule channelJoinHandlerFactory_dispatch)
  ultimately show ?thesis using assms by auto
qed

lemma dispatch_parse_error:
  assumes "parseGatewayMessage m = Inl e"
  shows "let r = dispatch label baseLogger sc botUser csvc timeout fn json_Unmarshal clk m w in
         fst r = None \<and> reads (snd r) = reads w + 2 \<and>
         (\<exists>line. events (snd r) = events w @ [Logged line] \<and>
           level line = ErrorLevel \<and> (''error'', LErr e) \<in> set (log_fields line) \<and>
           msg line = ''failed to parse message from gateway'')"
  using assms by (simp add: dispatch_def absorb_def Let_def)

lemma dispatch_unmarshal_error:
  assumes "parseGatewayMessage m = Inr (eid, et, gt, d)" and "json_Unmarshal d = Inl e"
  shows "let r = dispatch label baseLogger sc botUser csvc timeout fn json_Unmarshal clk m w in
         fst r = None \<and> reads (snd r) = reads w + 2 \<and>
         (\<exists>line. events (snd r) = events w @ [Logged line] \<and>
           level line = ErrorLevel \<and> (''error'', LErr e) \<in> set (log_fields line) \<and>
           msg line = ''failed to parse message JSON'')"
  using assms by (simp add: dispatch_def absorb_def Let_def)

lemma outcome_line_level:
  "level (outcome_line lg dur (classify shouldRetry discarded err)) =
     (case err of None \<Rightarrow> InfoLevel | Some e \<Rightarrow> if discarded then WarnLevel else ErrorLevel)"
  by (simp add: outcome_line_def classify_def split: option.split)

lemma to_transport_classify:
  "to_transport (classify shouldRetry discarded err) =
     (if err \<noteq> None \<and> \<not> discarded \<and> shouldRetry then err else None)"
  by (auto simp: to_transport_def classify_def split: option.split)

lemma dispatch_handler:
  assumes "parseGatewayMessage m = Inr (eid, et, gt, d)" and "json_Unmarshal d = Inr ev"
  shows "let r = dispatch label baseLogger sc botUser csvc timeout fn json_Unmarshal clk m w in
         \<exists>wqctx shouldRetry discarded err line.
           fn wqctx ev = (shouldRetry, discarded, err) \<and>
           deadline (ctxer_Context wqctx) = clk (Suc (reads w)) + timeout \<and>
           ctxer_e wqctx = \<lparr>event_id = eid, event_time = et, enqueue_time = gt,
                             transport_message_id = ID m\<rparr> \<and>
           fst r = (if err \<noteq> None \<and> \<not> discarded \<and> shouldRetry then err else None) \<and>
           reads (snd r) = reads w + 5 \<and>
           events (snd r) = events w @
                  [ContextCreated (ctxer_Context wqctx), HandlerInvoked wqctx ev,
                   HandlerReturned shouldRetry discarded err,
                   ContextCancelled (ctxer_Context wqctx), Logged line] \<and>
           level line = (case err of None \<Rightarrow> InfoLevel
                         | Some e \<Rightarrow> if discarded then WarnLevel else ErrorLevel)"
proof -
  define lg where "lg = baseLogger @ [(''handler'', LStr label), (''redis_message'', LStr (ID m)),
      (''redis_stream'', LStr (Stream m)), (''event_time'', LTime et), (''event_id'', LStr eid),
      (''enqueued_time'', LTime gt)]"
  define wqctx where "wqctx = \<lparr>ctxer_Context = \<lparr>deadline = clk (Suc (reads w)) + timeout\<rparr>,
      ctxer_s = sc, ctxer_l = lg, ctxer_u = botUser, ctxer_c = csvc,
      ctxer_e = \<lparr>event_id = eid, event_time = et, enqueue_time = gt,
                  transport_message_id = ID m\<rparr>\<rparr>"
  obtain shouldRetry discarded err where h: "fn wqctx ev = (shouldRetry, discarded, err)"
    by (cases "fn wqctx ev") auto
  define line where "line = outcome_line (lg @ [(''handler_duration'',
      LDur (clk (Suc (Suc (Suc (reads w)))) - clk (Suc (Suc (reads w)))))])
      (clk (Suc (Suc (Suc (Suc (reads w))))) - clk (reads w)) (classify shouldRetry discarded err)"
  have wq: "deadline (ctxer_Context wqctx) = clk (Suc (reads w)) + timeout"
    "ctxer_e wqctx = \<lparr>event_id = eid, event_time = et, enqueue_time = gt,
                       transport_message_id = ID m\<rparr>"
    by (simp_all add: wqctx_def)
  have eq: "dispatch label baseLogger sc botUser csvc timeout fn json_Unmarshal clk m w =
        (to_transport (classify shouldRetry discarded err),
         w\<lparr>reads := reads w + 5,
           events := events w @ [ContextCreated (ctxer_Context wqctx), HandlerInvoked wqctx ev,
             HandlerReturned shouldRetry discarded err, ContextCancelled (ctxer_Context wqctx),
             Logged line]\<rparr>)"
    using assms h
    by (simp add: dispatch_def run_handler_def Let_def wqctx_def lg_def line_def eval_nat_numeral)
  have lv: "level line = (case err of None \<Rightarrow> InfoLevel
                         | Some e \<Rightarrow> if discarded then WarnLevel else ErrorLevel)"
    by (simp only: line_def outcome_line_level)
  show ?thesis
    unfolding Let_def eq fst_conv snd_conv to_transport_classify
    by (intro exI [of _ wqctx] exI [of _ shouldRetry] exI [of _ discarded] exI [of _ err]
          exI [of _ line] conjI h wq lv refl) simp_all
qed

lemma parse_example_envelope:
  \<open>parseGatewayMessage example_envelope =
     Inr (''e1'', \<lparr>unix_sec = 1700000000, nanosecond = 0\<rparr>,
          \<lparr>unix_sec = 1700000000, nanosecond = 500000000\<rparr>, ''{"ok":true}'')\<close>
  by (subst parseGatewayMessage_strings [where ets = "''1700000000''" and gts = "''1700000000500''"
        and eid = "''e1''" and d = \<open>''{"ok":true}''\<close>])
     (simp_all add: example_envelope_def ParseInt_examples div64_eval time_Unix_def)

lemma unmarshal_example:
  \<open>json_Unmarshal_ptr example_decode ''{"ok":true}'' = Inr (Some ''{"ok":true}'')\<close>
  by (simp add: json_Unmarshal_ptr_def json_trim_def json_space_def example_decode_def)

lemma factory_membership:
  "messageHandlerFactory \<in> {messageHandlerFactory, teamJoinHandlerFactory, channelJoinHandlerFactory}"
  "teamJoinHandlerFactory \<in> {messageHandlerFactory, teamJoinHandlerFactory, channelJoinHandlerFactory}"
  "channelJoinHandlerFactory \<in> {messageHandlerFactory, teamJoinHandlerFactory, channelJoinHandlerFactory}"
  by simp_all

lemma parse_empty_envelope:
  "parseGatewayMessage empty_envelope = Inl (errors_New ''redis stream malformed: event_ts not present'')"
  by (simp add: parseGatewayMessage_def empty_envelope_def)

lemma parse_envelope_empty_json:
  "parseGatewayMessage envelope_empty_json =
     Inr (''e3'', \<lparr>unix_sec = 1700000000, nanosecond = 0\<rparr>,
          \<lparr>unix_sec = 1700000000, nanosecond = 500000000\<rparr>, [])"
  by (subst parseGatewayMessage_strings [where ets = "''1700000000''" and gts = "''1700000000500''"
        and eid = "''e3''" and d = "[]"])
     (simp_all add: envelope_empty_json_def ParseInt_examples div64_eval time_Unix_def)

lemma unmarshal_empty:
  "json_Unmarshal_ptr example_decode [] = Inl (errors_New ''unexpected end of JSON input'')"
  by (simp add: json_Unmarshal_ptr_def json_trim_def example_decode_def)

lemma Context_eq: "deadline c = x \<Longrightarrow> c = \<lparr>deadline = x\<rparr>"
  by (cases c) simp

text \<open>
  Claim C1. When the envelope and the payload of a delivered message both decode, the
  function a factory returns calls the handler once and returns an error to the
  consumer exactly when the handler returned an error with \<open>discarded\<close> false and
  \<open>shouldRetry\<close> true; the error returned is then the handler's own. In every other
  case it returns \<open>nil\<close>, so the message is acknowledged. The result is a function of
  the handler's three results alone; the clock, and with it the deadline, is arbitrary.
\<close>

theorem dispatch_returns_error_iff_retryable:
  assumes "wrapper \<in> {messageHandlerFactory, teamJoinHandlerFactory, channelJoinHandlerFactory}"
    and "parseGatewayMessage m = Inr (eid, et, gt, d)"
    and "json_Unmarshal d = Inr ev"
  shows "let r = wrapper baseLogger sc botUser csvc timeout fn json_Unmarshal clk m w in
         \<exists>wqctx shouldRetry discarded err.
           HandlerInvoked wqctx ev \<in> set (drop (length (events w)) (events (snd r))) \<and>
           fn wqctx ev = (shouldRetry, discarded, err) \<and>
           fst r = (if err \<noteq> None \<and> \<not> discarded \<and> shouldRetry then err else None)"
proof -
  obtain label where l: "wrapper = dispatch label"
    using factory_is_dispatch [OF assms(1)] by blast
  from dispatch_handler [where json_Unmarshal = json_Unmarshal and d = d and fn = fn and clk = clk
      and w = w and timeout = timeout and label = label and baseLogger = baseLogger and sc = sc
      and botUser = botUser and csvc = csvc, OF assms(2,3)]
  show ?thesis unfolding l Let_def by force
qed

theorem dispatch_returns_error_iff_retryable_witness:
  "fst (messageHandlerFactory [] 1 2 3 50000000 handler_retry (json_Unmarshal_ptr example_decode)
          slow_clock example_envelope world0) = Some (errors_New ''slack unavailable'') \<and>
   fst (messageHandlerFactory [] 1 2 3 50000000 handler_discard (json_Unmarshal_ptr example_decode)
          slow_clock example_envelope world0) = None \<and>
   fst (messageHandlerFactory [] 1 2 3 50000000 handler_fail (json_Unmarshal_ptr example_decode)
          slow_clock example_envelope world0) = None \<and>
   fst (messageHandlerFactory [] 1 2 3 50000000 handler_ok (json_Unmarshal_ptr example_decode)
          slow_clock example_envelope world0) = None \<and>
   slow_clock 1 + 50000000 < slow_clock 3"
  using dispatch_returns_error_iff_retryable [where wrapper = messageHandlerFactory
          and m = example_envelope and json_Unmarshal = "json_Unmarshal_ptr example_decode"
          and d = \<open>''{"ok":true}''\<close> and fn = handler_retry and baseLogger = "[]" and sc = 1 and botUser = 2
          and csvc = 3 and timeout = 50000000 and clk = slow_clock and w = world0,
          OF factory_membership(1) parse_example_envelope unmarshal_example]
        dispatch_returns_error_iff_retryable [where wrapper = messageHandlerFactory
          and m = example_envelope and json_Unmarshal = "json_Unmarshal_ptr example_decode"
          and d = \<open>''{"ok":true}''\<close> and fn = handler_discard and baseLogger = "[]" and sc = 1 and botUser = 2
          and csvc = 3 and timeout = 50000000 and clk = slow_clock and w = world0,
          OF factory_membership(1) parse_example_envelope unmarshal_example]
        dispatch_returns_error_iff_retryable [where wrapper = messageHandlerFactory
          and m = example_envelope and json_Unmarshal = "json_Unmarshal_ptr example_decode"
          and d = \<open>''{"ok":true}''\<close> and fn = handler_fail and baseLogger = "[]" and sc = 1 and botUser = 2
          and csvc = 3 and timeout = 50000000 and clk = slow_clock and w = world0,
          OF factory_membership(1) parse_example_envelope unmarshal_example]
        dispatch_returns_error_iff_retryable [where wrapper = messageHandlerFactory
          and m = example_envelope and json_Unmarshal = "json_Unmarshal_ptr example_decode"
          and d = \<open>''{"ok":true}''\<close> and fn = handler_ok and baseLogger = "[]" and sc = 1 and botUser = 2
          and csvc = 3 and timeout = 50000000 and clk = slow_clock and w = world0,
          OF factory_membership(1) parse_example_envelope unmarshal_example]
  by (auto simp: Let_def handler_retry_def handler_discard_def handler_fail_def handler_ok_def
        slow_clock_def)

text \<open>
  Claim C8. Whenever the handler is called, the effects of the dispatch are, in this
  order: a context is created whose deadline is the clock reading taken at its creation
  plus the registered timeout; the handler is called with it; the handler returns; the
  context is cancelled; one log line reports the outcome (info on success, warning when
  discarded, error otherwise). Between the handler's return and the cancellation only
  the clock is read. The order is the same for the four kinds of result.
\<close>

theorem context_cancelled_after_handler:
  assumes "wrapper \<in> {messageHandlerFactory, teamJoinHandlerFactory, channelJoinHandlerFactory}"
    and "parseGatewayMessage m = Inr (eid, et, gt, d)"
    and "json_Unmarshal d = Inr ev"
  shows "let r = wrapper baseLogger sc botUser csvc timeout fn json_Unmarshal clk m w in
         \<exists>wqctx shouldRetry discarded err line.
           deadline (ctxer_Context wqctx) = clk (Suc (reads w)) + timeout \<and>
           fn wqctx ev = (shouldRetry, discarded, err) \<and>
           events (snd r) = events w @
             [ContextCreated (ctxer_Context wqctx), HandlerInvoked wqctx ev,
              HandlerReturned shouldRetry discarded err,
              ContextCancelled (ctxer_Context wqctx), Logged line] \<and>
           level line = (case err of None \<Rightarrow> InfoLevel
                         | Some e \<Rightarrow> if discarded then WarnLevel else ErrorLevel)"
proof -
  obtain label where l: "wrapper = dispatch label"
    using factory_is_dispatch [OF assms(1)] by blast
  from dispatch_handler [where json_Unmarshal = json_Unmarshal and d = d and fn = fn and clk = clk
      and w = w and timeout = timeout and label = label and baseLogger = baseLogger and sc = sc
      and botUser = botUser and csvc = csvc, OF assms(2,3)]
  show ?thesis unfolding l Let_def by blast
qed

theorem context_cancelled_after_handler_witness:
  \<open>\<exists>wqctx line.
     events (snd (channelJoinHandlerFactory [] 1 2 3 50000000 handler_retry
        (json_Unmarshal_ptr example_decode) slow_clock example_envelope world0)) =
       [ContextCreated \<lparr>deadline = 250000000\<rparr>, HandlerInvoked wqctx (Some ''{"ok":true}''),
        HandlerReturned True False (Some (errors_New ''slack unavailable'')),
        ContextCancelled \<lparr>deadline = 250000000\<rparr>, Logged line] \<and>
     level line = ErrorLevel\<close>
proof -
  from context_cancelled_after_handler [where wrapper = channelJoinHandlerFactory
          and m = example_envelope and json_Unmarshal = "json_Unmarshal_ptr example_decode"
          and d = \<open>''{"ok":true}''\<close> and fn = handler_retry and baseLogger = "[]" and sc = 1
          and botUser = 2 and csvc = 3 and timeout = 50000000 and clk = slow_clock and w = world0,
          OF factory_membership(3) parse_example_envelope unmarshal_example]
  obtain wqctx shouldRetry discarded err line where
    d: "deadline (ctxer_Context wqctx) = slow_clock (Suc (reads world0)) + 50000000"
    and h: \<open>handler_retry wqctx (Some ''{"ok":true}'') = (shouldRetry, discarded, err)\<close>
    and e: \<open>events (snd (channelJoinHandlerFactory [] 1 2 3 50000000 handler_retry
        (json_Unmarshal_ptr example_decode) slow_clock example_envelope world0)) =
         events world0 @ [ContextCreated (ctxer_Context wqctx), HandlerInvoked wqctx (Some ''{"ok":true}''),
              HandlerReturned shouldRetry discarded err,
              ContextCancelled (ctxer_Context wqctx), Logged line]\<close>
    and l: "level line = (case err of None \<Rightarrow> InfoLevel
                         | Some e \<Rightarrow> if discarded then WarnLevel else ErrorLevel)"
    unfolding Let_def by blast
  have c: "ctxer_Context wqctx = \<lparr>deadline = 250000000\<rparr>"
    using d by (intro Context_eq) (simp add: slow_clock_def world0_def)
  from h have "shouldRetry = True" "discarded = False" "err = Some (errors_New ''slack unavailable'')"
    by (simp_all add: handler_retry_def)
  with e l c show ?thesis by (simp add: world0_def)
qed

section \<open>Decoding failures and the shape of a dispatch\<close>

lemma parse_envelope_without_request_id:
  \<open>parseGatewayMessage envelope_without_request_id =
     Inr (''e1'', \<lparr>unix_sec = 1700000000, nanosecond = 0\<rparr>,
          \<lparr>unix_sec = 1700000000, nanosecond = 500000000\<rparr>, ''{"ok":true}'')\<close>
  by (subst parseGatewayMessage_strings [where ets = "''1700000000''" and gts = "''1700000000500''"
        and eid = "''e1''" and d = \<open>''{"ok":true}''\<close>])
     (simp_all add: envelope_without_request_id_def ParseInt_examples div64_eval time_Unix_def)

lemma missing_field_error:
  assumes "find (\<lambda>f. Values m f = None) [''event_ts'', ''gateway_ts'', ''event_id'', ''json''] = Some f"
  shows "parseGatewayMessage m =
         Inl (errors_New (''redis stream malformed: '' @ f @
                          (if f = ''json'' then '' data'' else []) @ '' not present''))"
  using assms by (auto simp: parseGatewayMessage_def split: if_splits option.splits)

lemma json_null: "json_Unmarshal_ptr decode ''null'' = Inr None"
  by (simp add: json_Unmarshal_ptr_def json_trim_def json_space_def)

lemma parseGatewayMessage_delivered:
  "parseGatewayMessage ((Publish now e ts eid rid payload)\<lparr>ID := mid\<rparr>) =
   Inr (eid, \<lparr>unix_sec = ts, nanosecond = 0\<rparr>,
        time_Unix (quo64 (quo64 now Millisecond) 1000) (rem64 (quo64 now Millisecond) 1000 * Millisecond),
        payload)"
  by (subst parseGatewayMessage_strings [where ets = "FormatInt ts"
        and gts = "FormatInt (quo64 now Millisecond)" and eid = eid and d = payload])
     (simp_all add: Publish_def ParseInt_FormatInt)

lemma outcome_line_msg:
  "msg (outcome_line lg dur oc) =
     (case oc of Success \<Rightarrow> ''complete'' | DiscardedFailure e \<Rightarrow> ''discarded event''
      | RetryableFailure e \<Rightarrow> ''handler failed'' | PermanentFailure e \<Rightarrow> ''handler failed'')"
  by (simp add: outcome_line_def split: Outcome.split)

lemma outcome_line_level_of:
  "level (outcome_line lg dur oc) =
     (case oc of Success \<Rightarrow> InfoLevel | DiscardedFailure e \<Rightarrow> WarnLevel
      | RetryableFailure e \<Rightarrow> ErrorLevel | PermanentFailure e \<Rightarrow> ErrorLevel)"
  by (simp add: outcome_line_def split: Outcome.split)

lemma dispatch_shape_eq:
  assumes "\<forall>c p. fn1 c p = r" and "\<forall>c p. fn2 c p = r"
    and "\<forall>d. isl (unm1 d) = isl (unm2 d)"
  shows "fst (dispatch l1 bl1 sc1 bu1 cs1 timeout fn1 unm1 clk m \<lparr>reads = n, events = []\<rparr>) =
         fst (dispatch l2 bl2 sc2 bu2 cs2 timeout fn2 unm2 clk m \<lparr>reads = n, events = []\<rparr>) \<and>
         map event_shape (events (snd (dispatch l1 bl1 sc1 bu1 cs1 timeout fn1 unm1 clk m \<lparr>reads = n, events = []\<rparr>))) =
         map event_shape (events (snd (dispatch l2 bl2 sc2 bu2 cs2 timeout fn2 unm2 clk m \<lparr>reads = n, events = []\<rparr>)))"
proof (cases "parseGatewayMessage m")
  case (Inl e)
  then show ?thesis by (simp add: dispatch_def absorb_def Let_def)
next
  case (Inr x)
  then obtain eid et gt d where p: "parseGatewayMessage m = Inr (eid, et, gt, d)"
    by (cases x) auto
  obtain shouldRetry discarded err where r: "r = (shouldRetry, discarded, err)"
    by (cases r) auto
  show ?thesis
  proof (cases "unm1 d")
    case (Inl e1)
    moreover from assms(3) have "isl (unm1 d) = isl (unm2 d)" by blast
    ultimately obtain e2 where "unm2 d = Inl e2" by (cases "unm2 d") simp_all
    with Inl p show ?thesis by (simp add: dispatch_def absorb_def Let_def)
  next
    case (Inr ev1)
    moreover from assms(3) have "isl (unm1 d) = isl (unm2 d)" by blast
    ultimately obtain ev2 where "unm2 d = Inr ev2" by (cases "unm2 d") simp_all
    with Inr p assms(1,2) r show ?thesis
      by (simp add: dispatch_def run_handler_def Let_def outcome_line_msg outcome_line_level_of)
  qed
qed

lemma parseGatewayMessage_Inr_fields:
  assumes "parseGatewayMessage m = Inr (eid, et, gt, d)"
  shows "\<exists>ets gts e g.
           Values m ''event_ts'' = Some (VString ets) \<and> Values m ''gateway_ts'' = Some (VString gts) \<and>
           Values m ''event_id'' = Some (VString eid) \<and> Values m ''json'' = Some (VString d) \<and>
           ParseInt ets = Inr e \<and> ParseInt gts = Inr g"
  using assms
  by (auto simp: parseGatewayMessage_def Let_def split: option.splits iface.splits sum.splits prod.splits)

lemma parseGatewayMessage_fails_iff:
  "isl (parseGatewayMessage m) \<longleftrightarrow>
     (\<exists>f \<in> set [''event_ts'', ''gateway_ts'', ''event_id'', ''json'']. \<forall>s. Values m f \<noteq> Some (VString s)) \<or>
     (\<exists>s. Values m ''event_ts'' = Some (VString s) \<and> isl (ParseInt s)) \<or>
     (\<exists>s. Values m ''gateway_ts'' = Some (VString s) \<and> isl (ParseInt s))"
proof (cases "\<exists>ets gts eid d. Values m ''event_ts'' = Some (VString ets) \<and>
    Values m ''gateway_ts'' = Some (VString gts) \<and> Values m ''event_id'' = Some (VString eid) \<and>
    Values m ''json'' = Some (VString d)")
  case True
  then obtain ets gts eid d where v: "Values m ''event_ts'' = Some (VString ets)"
    "Values m ''gateway_ts'' = Some (VString gts)" "Values m ''event_id'' = Some (VString eid)"
    "Values m ''json'' = Some (VString d)" by blast
  show ?thesis
    using v by (auto simp: parseGatewayMessage_strings [OF v] split: sum.splits)
next
  case False
  then have a: "\<exists>f \<in> set [''event_ts'', ''gateway_ts'', ''event_id'', ''json''].
      \<forall>s. Values m f \<noteq> Some (VString s)"
    by auto
  have "isl (parseGatewayMessage m)"
  proof (cases "parseGatewayMessage m")
    case (Inr x)
    obtain eid et gt d where "x = (eid, et, gt, d)" by (cases x) auto
    with Inr parseGatewayMessage_Inr_fields [of m eid et gt d] False show ?thesis by blast
  qed simp
  with a show ?thesis by blast
qed

lemma ParseInt_soon: "isl (ParseInt ''soon'')"
  by (simp add: ParseInt_eval)

text \<open>
  Claim C2 reads: a field map that is missing any one of the five fields \<open>request_id\<close>,
  \<open>event_id\<close>, \<open>event_ts\<close>, \<open>gateway_ts\<close>, \<open>json\<close> fails to decode. For
  \<open>request_id\<close> this does not hold: \<open>parseGatewayMessage\<close> never reads that field. The
  scenario's envelope without its \<open>request_id\<close> decodes, and the handler is called.
\<close>

theorem missing_request_id_still_dispatched:
  \<open>Values envelope_without_request_id ''request_id'' = None \<and>
   parseGatewayMessage envelope_without_request_id =
     Inr (''e1'', \<lparr>unix_sec = 1700000000, nanosecond = 0\<rparr>,
          \<lparr>unix_sec = 1700000000, nanosecond = 500000000\<rparr>, ''{"ok":true}'') \<and>
   (\<exists>wqctx rest.
      events (snd (messageHandlerFactory [] 1 2 3 50000000 handler_ok
         (json_Unmarshal_ptr example_decode) slow_clock envelope_without_request_id world0)) =
      ContextCreated (ctxer_Context wqctx) # HandlerInvoked wqctx (Some ''{"ok":true}'') # rest)\<close>
proof -
  have \<open>Values envelope_without_request_id ''request_id'' = None\<close>
    by (simp add: envelope_without_request_id_def)
  moreover from dispatch_handler [where json_Unmarshal = "json_Unmarshal_ptr example_decode"
      and d = \<open>''{"ok":true}''\<close> and fn = handler_ok and clk = slow_clock and w = world0
      and timeout = 50000000 and label = "''message''" and baseLogger = "[]" and sc = 1
      and botUser = 2 and csvc = 3, OF parse_envelope_without_request_id unmarshal_example]
  have \<open>\<exists>wqctx rest.
      events (snd (messageHandlerFactory [] 1 2 3 50000000 handler_ok
         (json_Unmarshal_ptr example_decode) slow_clock envelope_without_request_id world0)) =
      ContextCreated (ctxer_Context wqctx) # HandlerInvoked wqctx (Some ''{"ok":true}'') # rest\<close>
    unfolding Let_def messageHandlerFactory_dispatch by (auto simp: world0_def)
  ultimately show ?thesis using parse_envelope_without_request_id by simp
qed

text \<open>
  Claim C2, amended. When one of the four fields \<open>event_ts\<close>, \<open>gateway_ts\<close>,
  \<open>event_id\<close>, \<open>json\<close> is absent from the field map, decoding fails with the error
  \<open>redis stream malformed: ... not present\<close> that names the absent field (\<open>json\<close> as
  \<open>json data\<close>; when several are absent, the first in the order above), and the dispatch
  writes one error log line, returns \<open>nil\<close> and calls no handler.
\<close>

theorem missing_field_rejected:
  assumes "wrapper \<in> {messageHandlerFactory, teamJoinHandlerFactory, channelJoinHandlerFactory}"
    and "find (\<lambda>f. Values m f = None) [''event_ts'', ''gateway_ts'', ''event_id'', ''json''] = Some f"
  shows "parseGatewayMessage m =
           Inl (errors_New (''redis stream malformed: '' @ f @
                            (if f = ''json'' then '' data'' else []) @ '' not present'')) \<and>
         (let r = wrapper baseLogger sc botUser csvc timeout fn json_Unmarshal clk m w in
          fst r = None \<and>
          (\<exists>line. events (snd r) = events w @ [Logged line] \<and> level line = ErrorLevel \<and>
             msg line = ''failed to parse message from gateway''))"
proof -
  obtain label where l: "wrapper = dispatch label"
    using factory_is_dispatch [OF assms(1)] by blast
  note e = missing_field_error [OF assms(2)]
  from dispatch_parse_error [OF e, of label baseLogger sc botUser csvc timeout fn json_Unmarshal clk w]
  show ?thesis unfolding l Let_def using e by blast
qed

theorem missing_field_rejected_witness:
  \<open>parseGatewayMessage envelope_without_event_id =
     Inl (errors_New ''redis stream malformed: event_id not present'') \<and>
   fst (messageHandlerFactory [] 1 2 3 50000000 handler_ok (json_Unmarshal_ptr example_decode)
          slow_clock envelope_without_event_id world0) = None \<and>
   (\<exists>line. events (snd (messageHandlerFactory [] 1 2 3 50000000 handler_ok
               (json_Unmarshal_ptr example_decode) slow_clock envelope_without_event_id world0)) =
            [Logged line])\<close>
proof -
  have f: "find (\<lambda>f. Values envelope_without_event_id f = None)
             [''event_ts'', ''gateway_ts'', ''event_id'', ''json''] = Some ''event_id''"
    by (simp add: envelope_without_event_id_def)
  show ?thesis
    using missing_field_rejected [where wrapper = messageHandlerFactory
            and m = envelope_without_event_id and f = "''event_id''"
            and json_Unmarshal = "json_Unmarshal_ptr example_decode"
            and fn = handler_ok and baseLogger = "[]" and sc = 1 and botUser = 2 and csvc = 3
            and timeout = 50000000 and clk = slow_clock and w = world0,
            OF factory_membership(1) f]
    by (auto simp: Let_def world0_def)
qed

text \<open>
  Claim C3 reads: whenever a required field is missing, a field is not a string, a
  timestamp does not parse or the payload does not unmarshal, the dispatch returns
  \<open>nil\<close> without calling the handler. For the field \<open>request_id\<close>, which the
  specification requires, this does not hold: the scenario's envelope without its
  \<open>request_id\<close> is decoded, the handler is called, and its retryable error is returned
  to the consumer.
\<close>

theorem missing_request_id_error_propagated:
  \<open>Values envelope_without_request_id ''request_id'' = None \<and>
   fst (messageHandlerFactory [] 1 2 3 50000000 handler_retry (json_Unmarshal_ptr example_decode)
          slow_clock envelope_without_request_id world0) = Some (errors_New ''slack unavailable'') \<and>
   (\<exists>wqctx rest.
      events (snd (messageHandlerFactory [] 1 2 3 50000000 handler_retry
         (json_Unmarshal_ptr example_decode) slow_clock envelope_without_request_id world0)) =
      ContextCreated (ctxer_Context wqctx) # HandlerInvoked wqctx (Some ''{"ok":true}'') # rest)\<close>
proof -
  have \<open>Values envelope_without_request_id ''request_id'' = None\<close>
    by (simp add: envelope_without_request_id_def)
  moreover from dispatch_handler [where json_Unmarshal = "json_Unmarshal_ptr example_decode"
      and d = \<open>''{"ok":true}''\<close> and fn = handler_retry and clk = slow_clock and w = world0
      and timeout = 50000000 and label = "''message''" and baseLogger = "[]" and sc = 1
      and botUser = 2 and csvc = 3, OF parse_envelope_without_request_id unmarshal_example]
  have \<open>fst (messageHandlerFactory [] 1 2 3 50000000 handler_retry (json_Unmarshal_ptr example_decode)
          slow_clock envelope_without_request_id world0) = Some (errors_New ''slack unavailable'') \<and>
     (\<exists>wqctx rest.
      events (snd (messageHandlerFactory [] 1 2 3 50000000 handler_retry
         (json_Unmarshal_ptr example_decode) slow_clock envelope_without_request_id world0)) =
      ContextCreated (ctxer_Context wqctx) # HandlerInvoked wqctx (Some ''{"ok":true}'') # rest)\<close>
    unfolding Let_def messageHandlerFactory_dispatch by (auto simp: world0_def handler_retry_def)
  ultimately show ?thesis by simp
qed

text \<open>
  Claim C3, amended. Whenever one of \<open>event_ts\<close>, \<open>gateway_ts\<close>, \<open>event_id\<close>, \<open>json\<close>
  is missing or is not a string, or \<open>event_ts\<close> or \<open>gateway_ts\<close> is a string that
  \<open>ParseInt\<close> rejects as a base-10 64-bit integer, or \<open>json\<close> is a string that fails
  to unmarshal, the function a factory returns writes one log line of severity error
  that carries the failure and returns \<open>nil\<close>: it creates no context, does not call the
  handler and passes no error to the consumer. By \<open>parseGatewayMessage_fails_iff\<close> the
  first three conditions are exactly those under which decoding the envelope fails.
\<close>

theorem malformed_message_acknowledged:
  assumes "wrapper \<in> {messageHandlerFactory, teamJoinHandlerFactory, channelJoinHandlerFactory}"
    and "(\<exists>f \<in> set [''event_ts'', ''gateway_ts'', ''event_id'', ''json''].
            \<forall>s. Values m f \<noteq> Some (VString s)) \<or>
         (\<exists>s. Values m ''event_ts'' = Some (VString s) \<and> isl (ParseInt s)) \<or>
         (\<exists>s. Values m ''gateway_ts'' = Some (VString s) \<and> isl (ParseInt s)) \<or>
         (\<exists>d. Values m ''json'' = Some (VString d) \<and> isl (json_Unmarshal d))"
  shows "let r = wrapper baseLogger sc botUser csvc timeout fn json_Unmarshal clk m w in
         fst r = None \<and>
         (\<exists>line e. events (snd r) = events w @ [Logged line] \<and>
            level line = ErrorLevel \<and> (''error'', LErr e) \<in> set (log_fields line) \<and>
            (parseGatewayMessage m = Inl e \<or>
             (\<exists>d. Values m ''json'' = Some (VString d) \<and> json_Unmarshal d = Inl e)))"
proof -
  obtain label where l: "wrapper = dispatch label"
    using factory_is_dispatch [OF assms(1)] by blast
  show ?thesis
  proof (cases "parseGatewayMessage m")
    case (Inl e)
    from dispatch_parse_error [OF Inl, of label baseLogger sc botUser csvc timeout fn json_Unmarshal clk w]
    show ?thesis unfolding l Let_def using Inl by blast
  next
    case (Inr x)
    obtain eid et gt d where x: "x = (eid, et, gt, d)" by (cases x) auto
    with Inr have p: "parseGatewayMessage m = Inr (eid, et, gt, d)" by simp
    from p have "\<not> isl (parseGatewayMessage m)" by simp
    with assms(2) obtain d' where d': "Values m ''json'' = Some (VString d')" "isl (json_Unmarshal d')"
      unfolding parseGatewayMessage_fails_iff by blast
    from parseGatewayMessage_Inr_fields [OF p] d'(1) have j: "Values m ''json'' = Some (VString d)"
      and "d' = d" by auto
    with d'(2) obtain e where u: "json_Unmarshal d = Inl e" by (cases "json_Unmarshal d") simp_all
    from dispatch_unmarshal_error [where json_Unmarshal = json_Unmarshal and d = d and fn = fn
        and clk = clk and w = w and timeout = timeout and label = label and baseLogger = baseLogger
        and sc = sc and botUser = botUser and csvc = csvc, OF p u]
    show ?thesis unfolding l Let_def using j u by blast
  qed
qed

theorem malformed_message_acknowledged_witness:
  "fst (teamJoinHandlerFactory [] 1 2 3 50000000 handler_retry (json_Unmarshal_ptr example_decode)
          slow_clock empty_envelope world0) = None \<and>
   (\<exists>line. events (snd (teamJoinHandlerFactory [] 1 2 3 50000000 handler_retry
               (json_Unmarshal_ptr example_decode) slow_clock empty_envelope world0)) = [Logged line]) \<and>
   fst (messageHandlerFactory [] 1 2 3 50000000 handler_retry (json_Unmarshal_ptr example_decode)
          slow_clock envelope_event_ts_not_string world0) = None \<and>
   (\<exists>line. events (snd (messageHandlerFactory [] 1 2 3 50000000 handler_retry
               (json_Unmarshal_ptr example_decode) slow_clock envelope_event_ts_not_string world0)) =
            [Logged line]) \<and>
   fst (messageHandlerFactory [] 1 2 3 50000000 handler_retry (json_Unmarshal_ptr example_decode)
          slow_clock envelope_gateway_ts_not_numeric world0) = None \<and>
   (\<exists>line. events (snd (messageHandlerFactory [] 1 2 3 50000000 handler_retry
               (json_Unmarshal_ptr example_decode) slow_clock envelope_gateway_ts_not_numeric world0)) =
            [Logged line]) \<and>
   fst (channelJoinHandlerFactory [] 1 2 3 50000000 handler_retry (json_Unmarshal_ptr example_decode)
          slow_clock envelope_empty_json world0) = None \<and>
   (\<exists>line. events (snd (channelJoinHandlerFactory [] 1 2 3 50000000 handler_retry
               (json_Unmarshal_ptr example_decode) slow_clock envelope_empty_json world0)) =
            [Logged line] \<and>
            (''error'', LErr (errors_New ''unexpected end of JSON input'')) \<in> set (log_fields line))"
proof -
  let ?U = "json_Unmarshal_ptr example_decode"
  have a: "(\<exists>f \<in> set [''event_ts'', ''gateway_ts'', ''event_id'', ''json''].
            \<forall>s. Values empty_envelope f \<noteq> Some (VString s)) \<or>
         (\<exists>s. Values empty_envelope ''event_ts'' = Some (VString s) \<and> isl (ParseInt s)) \<or>
         (\<exists>s. Values empty_envelope ''gateway_ts'' = Some (VString s) \<and> isl (ParseInt s)) \<or>
         (\<exists>d. Values empty_envelope ''json'' = Some (VString d) \<and> isl (?U d))"
    by (auto simp: empty_envelope_def)
  have b: "(\<exists>f \<in> set [''event_ts'', ''gateway_ts'', ''event_id'', ''json''].
            \<forall>s. Values envelope_event_ts_not_string f \<noteq> Some (VString s)) \<or>
         (\<exists>s. Values envelope_event_ts_not_string ''event_ts'' = Some (VString s) \<and> isl (ParseInt s)) \<or>
         (\<exists>s. Values envelope_event_ts_not_string ''gateway_ts'' = Some (VString s) \<and> isl (ParseInt s)) \<or>
         (\<exists>d. Values envelope_event_ts_not_string ''json'' = Some (VString d) \<and> isl (?U d))"
    by (auto simp: envelope_event_ts_not_string_def)
  have c: "(\<exists>f \<in> set [''event_ts'', ''gateway_ts'', ''event_id'', ''json''].
            \<forall>s. Values envelope_gateway_ts_not_numeric f \<noteq> Some (VString s)) \<or>
         (\<exists>s. Values envelope_gateway_ts_not_numeric ''event_ts'' = Some (VString s) \<and> isl (ParseInt s)) \<or>
         (\<exists>s. Values envelope_gateway_ts_not_numeric ''gateway_ts'' = Some (VString s) \<and> isl (ParseInt s)) \<or>
         (\<exists>d. Values envelope_gateway_ts_not_numeric ''json'' = Some (VString d) \<and> isl (?U d))"
    by (auto simp: envelope_gateway_ts_not_numeric_def ParseInt_soon)
  have d: "(\<exists>f \<in> set [''event_ts'', ''gateway_ts'', ''event_id'', ''json''].
            \<forall>s. Values envelope_empty_json f \<noteq> Some (VString s)) \<or>
         (\<exists>s. Values envelope_empty_json ''event_ts'' = Some (VString s) \<and> isl (ParseInt s)) \<or>
         (\<exists>s. Values envelope_empty_json ''gateway_ts'' = Some (VString s) \<and> isl (ParseInt s)) \<or>
         (\<exists>d. Values envelope_empty_json ''json'' = Some (VString d) \<and> isl (?U d))"
    by (auto simp: envelope_empty_json_def unmarshal_empty)
  have nj: "\<And>e. parseGatewayMessage envelope_empty_json \<noteq> Inl e"
    by (simp add: parse_envelope_empty_json)
  have ej: "Values envelope_empty_json ''json'' = Some (VString [])"
    by (simp add: envelope_empty_json_def)
  note t = malformed_message_acknowledged [where json_Unmarshal = ?U and fn = handler_retry
      and baseLogger = "[]" and sc = 1 and botUser = 2 and csvc = 3 and timeout = 50000000
      and clk = slow_clock and w = world0]
  show ?thesis
    using t [where wrapper = teamJoinHandlerFactory and m = empty_envelope, OF factory_membership(2) a]
          t [where wrapper = messageHandlerFactory and m = envelope_event_ts_not_string,
             OF factory_membership(1) b]
          t [where wrapper = messageHandlerFactory and m = envelope_gateway_ts_not_numeric,
             OF factory_membership(1) c]
          t [where wrapper = channelJoinHandlerFactory and m = envelope_empty_json,
             OF factory_membership(3) d]
    by (auto simp: Let_def world0_def nj ej unmarshal_empty)
qed

text \<open>
  Claim C6. The mapping from events to streams is fixed: the event of a message in a
  public channel is the stream \<open>slack_message_public\<close>; the events of a message in a
  group, an IM, a multi-party IM and the app home are all the one stream
  \<open>slack_message_private\<close>; team join and channel join have a stream each; the four
  streams are distinct. \<open>Publish\<close> sends every event to the stream that is its name, so
  the mapping is total. A handler registered for private messages is stored under
  exactly the stream to which those four events are published, and no other
  registration changes; the same holds for the three other registrations.
\<close>

theorem category_stream_mapping:
  "SlackMessageChannel = ''slack_message_public'' \<and>
   SlackMessageGroup = ''slack_message_private'' \<and>
   SlackMessageIM = ''slack_message_private'' \<and>
   SlackMessageMPIM = ''slack_message_private'' \<and>
   SlackMessageAppHome = ''slack_message_private'' \<and>
   SlackTeamJoin = ''slack_team_join'' \<and>
   SlackChannelJoin = ''slack_channel_join'' \<and>
   distinct [SlackMessageChannel, SlackMessageGroup, SlackTeamJoin, SlackChannelJoin] \<and>
   Stream (Publish now e ts eid rid payload) = e \<and>
   Stream (Publish now SlackMessageGroup ts eid rid payload) = slackPrivateMessage \<and>
   Stream (Publish now SlackMessageIM ts eid rid payload) = slackPrivateMessage \<and>
   Stream (Publish now SlackMessageMPIM ts eid rid payload) = slackPrivateMessage \<and>
   Stream (Publish now SlackMessageAppHome ts eid rid payload) = slackPrivateMessage \<and>
   I_c (RegisterPrivateMessagesHandler timeout fn json_Unmarshal i) =
     (I_c i)(slackPrivateMessage \<mapsto>
       (''$'', messageHandlerFactory (I_l i) (I_sc i) (I_self i) (I_cs i) timeout fn json_Unmarshal)) \<and>
   I_c (RegisterPublicMessagesHandler timeout fn json_Unmarshal i) =
     (I_c i)(SlackMessageChannel \<mapsto>
       (''$'', messageHandlerFactory (I_l i) (I_sc i) (I_self i) (I_cs i) timeout fn json_Unmarshal)) \<and>
   I_c (RegisterTeamJoinsHandler timeout fn json_Unmarshal i) =
     (I_c i)(SlackTeamJoin \<mapsto>
       (''$'', teamJoinHandlerFactory (I_l i) (I_sc i) (I_self i) (I_cs i) timeout fn json_Unmarshal)) \<and>
   I_c (RegisterChannelJoinsHandler timeout fn json_Unmarshal i) =
     (I_c i)(SlackChannelJoin \<mapsto>
       (''$'', channelJoinHandlerFactory (I_l i) (I_sc i) (I_self i) (I_cs i) timeout fn json_Unmarshal))"
  by (simp add: SlackMessageChannel_def SlackMessageGroup_def SlackMessageIM_def
      SlackMessageMPIM_def SlackMessageAppHome_def SlackTeamJoin_def SlackChannelJoin_def
      slackPublicMessage_def slackPrivateMessage_def slackTeamJoin_def slackChannelJoin_def
      Publish_def RegisterPrivateMessagesHandler_def RegisterPublicMessagesHandler_def
      RegisterTeamJoinsHandler_def RegisterChannelJoinsHandler_def registerMessageHandler_def
      RegisterWithLastID_def)

text \<open>
  Claim C7 reads: the three factories differ only in the type of the event. They differ
  in one more place: the value of the logging field \<open>handler\<close>, which is \<open>message\<close>,
  \<open>team_join\<close> or \<open>channel_join\<close>. At one and the same type, with the same arguments,
  the message factory and the team-join factory write different log lines.
\<close>

theorem factories_differ_in_handler_label:
  "messageHandlerFactory [] 1 2 3 50000000 handler_ok (json_Unmarshal_ptr example_decode)
     slow_clock empty_envelope world0 \<noteq>
   teamJoinHandlerFactory [] 1 2 3 50000000 handler_ok (json_Unmarshal_ptr example_decode)
     slow_clock empty_envelope world0"
  by (simp add: messageHandlerFactory_dispatch teamJoinHandlerFactory_dispatch dispatch_def
      absorb_def parse_empty_envelope world0_def Let_def)

text \<open>
  Claim C7, amended. Each of the three factories is the one pipeline \<open>dispatch\<close> at its
  own value of the logging field \<open>handler\<close> and its own type of event. For one
  message, one clock and one timeout, with handlers that return the same result and
  payload decoders that fail on the same payloads, the three return the same error or
  \<open>nil\<close> to the consumer and have the same effects in the same order: the same
  deadline, the same metadata, the same handler result, the same cancellation and log
  lines of the same severity and text. They differ only in the type of the event and in
  the value of the field \<open>handler\<close> of their log lines.
\<close>

theorem factories_equivalent_up_to_label:
  assumes "\<forall>c p. fn1 c p = r" and "\<forall>c p. fn2 c p = r" and "\<forall>c p. fn3 c p = r"
    and "\<forall>d. isl (unm1 d) = isl (unm2 d)" and "\<forall>d. isl (unm2 d) = isl (unm3 d)"
  shows "messageHandlerFactory baseLogger sc botUser csvc timeout fn1 unm1 clk m w1 =
           dispatch ''message'' baseLogger sc botUser csvc timeout fn1 unm1 clk m w1 \<and>
         teamJoinHandlerFactory baseLogger sc botUser csvc timeout fn2 unm2 clk m w2 =
           dispatch ''team_join'' baseLogger sc botUser csvc timeout fn2 unm2 clk m w2 \<and>
         channelJoinHandlerFactory baseLogger sc botUser csvc timeout fn3 unm3 clk m w3 =
           dispatch ''channel_join'' baseLogger sc botUser csvc timeout fn3 unm3 clk m w3 \<and>
         fst (messageHandlerFactory baseLogger sc botUser csvc timeout fn1 unm1 clk m \<lparr>reads = n, events = []\<rparr>) =
         fst (teamJoinHandlerFactory baseLogger sc botUser csvc timeout fn2 unm2 clk m \<lparr>reads = n, events = []\<rparr>) \<and>
         fst (teamJoinHandlerFactory baseLogger sc botUser csvc timeout fn2 unm2 clk m \<lparr>reads = n, events = []\<rparr>) =
         fst (channelJoinHandlerFactory baseLogger sc botUser csvc timeout fn3 unm3 clk m \<lparr>reads = n, events = []\<rparr>) \<and>
         map event_shape (events (snd (messageHandlerFactory baseLogger sc botUser csvc timeout fn1 unm1 clk m \<lparr>reads = n, events = []\<rparr>))) =
         map event_shape (events (snd (teamJoinHandlerFactory baseLogger sc botUser csvc timeout fn2 unm2 clk m \<lparr>reads = n, events = []\<rparr>))) \<and>
         map event_shape (events (snd (teamJoinHandlerFactory baseLogger sc botUser csvc timeout fn2 unm2 clk m \<lparr>reads = n, events = []\<rparr>))) =
         map event_shape (events (snd (channelJoinHandlerFactory baseLogger sc botUser csvc timeout fn3 unm3 clk m \<lparr>reads = n, events = []\<rparr>)))"
  using dispatch_shape_eq [OF assms(1) assms(2) assms(4), of "''message''" baseLogger sc botUser csvc
          timeout clk m n "''team_join''" baseLogger sc botUser csvc]
        dispatch_shape_eq [OF assms(2) assms(3) assms(5), of "''team_join''" baseLogger sc botUser csvc
          timeout clk m n "''channel_join''" baseLogger sc botUser csvc]
  by (simp only: messageHandlerFactory_dispatch teamJoinHandlerFactory_dispatch
        channelJoinHandlerFactory_dispatch simp_thms)

theorem factories_equivalent_up_to_label_witness:
  "fst (messageHandlerFactory [] 1 2 3 50000000 handler_retry (json_Unmarshal_ptr example_decode)
          slow_clock example_envelope \<lparr>reads = 0, events = []\<rparr>) =
   fst (teamJoinHandlerFactory [] 1 2 3 50000000 handler_retry (json_Unmarshal_ptr example_decode)
          slow_clock example_envelope \<lparr>reads = 0, events = []\<rparr>) \<and>
   map event_shape (events (snd (teamJoinHandlerFactory [] 1 2 3 50000000 handler_retry
          (json_Unmarshal_ptr example_decode) slow_clock example_envelope \<lparr>reads = 0, events = []\<rparr>))) =
   map event_shape (events (snd (channelJoinHandlerFactory [] 1 2 3 50000000 handler_retry
          (json_Unmarshal_ptr example_decode) slow_clock example_envelope \<lparr>reads = 0, events = []\<rparr>)))"
proof -
  have h: "\<forall>c p. handler_retry c p = (True, False, Some (errors_New ''slack unavailable''))"
    by (simp add: handler_retry_def)
  have u: "\<forall>d. isl (json_Unmarshal_ptr example_decode d) = isl (json_Unmarshal_ptr example_decode d)"
    by simp
  show ?thesis
    using factories_equivalent_up_to_label [OF h h h u u, of "[]" 1 2 3 50000000 slow_clock
            example_envelope _ _ _ 0]
    by blast
qed

text \<open>
  Claim C9. A message whose payload is the JSON literal \<open>null\<close> passes both decoding
  steps and reaches the handler with a \<open>nil\<close> pointer: for every message that \<open>Publish\<close>
  builds with that payload, delivered under any id, the envelope decodes,
  \<open>json.Unmarshal\<close> into the pointer succeeds and leaves it \<open>nil\<close>, and both the message
  factory and the team-join factory call the handler with \<open>nil\<close>. Neither checks the
  pointer between unmarshalling and the call.
\<close>

theorem null_payload_reaches_handler:
  "json_Unmarshal_ptr decode ''null'' = Inr None \<and>
   (\<exists>et gt. parseGatewayMessage ((Publish now e ts eid rid ''null'')\<lparr>ID := mid\<rparr>) =
              Inr (eid, et, gt, ''null'')) \<and>
   (\<exists>wqctx rest.
      events (snd (messageHandlerFactory baseLogger sc botUser csvc timeout fn
                      (json_Unmarshal_ptr decode) clk
                      ((Publish now e ts eid rid ''null'')\<lparr>ID := mid\<rparr>) w)) =
      events w @ ContextCreated (ctxer_Context wqctx) # HandlerInvoked wqctx None # rest) \<and>
   (\<exists>wqctx rest.
      events (snd (teamJoinHandlerFactory baseLogger sc botUser csvc timeout fn'
                      (json_Unmarshal_ptr decode') clk
                      ((Publish now e ts eid rid ''null'')\<lparr>ID := mid\<rparr>) w')) =
      events w' @ ContextCreated (ctxer_Context wqctx) # HandlerInvoked wqctx None # rest)"
proof -
  let ?m = "(Publish now e ts eid rid ''null'')\<lparr>ID := mid\<rparr>"
  obtain et gt where p: "parseGatewayMessage ?m = Inr (eid, et, gt, ''null'')"
    by (simp add: parseGatewayMessage_delivered)
  from dispatch_handler [where json_Unmarshal = "json_Unmarshal_ptr decode" and d = "''null''"
      and fn = fn and clk = clk and w = w and timeout = timeout and label = "''message''"
      and baseLogger = baseLogger and sc = sc and botUser = botUser and csvc = csvc,
      OF p json_null]
  have a: "\<exists>wqctx rest.
      events (snd (messageHandlerFactory baseLogger sc botUser csvc timeout fn
                      (json_Unmarshal_ptr decode) clk ?m w)) =
      events w @ ContextCreated (ctxer_Context wqctx) # HandlerInvoked wqctx None # rest"
    unfolding Let_def messageHandlerFactory_dispatch by auto
  from dispatch_handler [where json_Unmarshal = "json_Unmarshal_ptr decode'" and d = "''null''"
      and fn = fn' and clk = clk and w = w' and timeout = timeout and label = "''team_join''"
      and baseLogger = baseLogger and sc = sc and botUser = botUser and csvc = csvc,
      OF p json_null]
  have b: "\<exists>wqctx rest.
      events (snd (teamJoinHandlerFactory baseLogger sc botUser csvc timeout fn'
                      (json_Unmarshal_ptr decode') clk ?m w')) =
      events w' @ ContextCreated (ctxer_Context wqctx) # HandlerInvoked wqctx None # rest"
    unfolding Let_def teamJoinHandlerFactory_dispatch by auto
  show ?thesis using p a b json_null by blast
qed

end
